theory Spec2Isabelle
  imports Complex_Main "HOL-Library.Char_ord" "HOL-Library.List_Lexorder" "HOL-Library.Multiset"
    "HOL-Library.Log_Nat"
begin

section \<open>Data model\<close>

text \<open>
  The employee management API keeps two collections: employees and attendance records.
  An object id of the store (\<open>oid\<close>) is represented by its hexadecimal string, 24
  lower-case digits, which is what \<^verbatim>\<open>toString()\<close> returns for it. The identifiers that
  callers supply are arbitrary strings; \<open>ObjectId\<close> below converts them and fails where
  the constructor of the driver throws. Strings are ASCII, one byte per character. A
  collection is the list of its documents in insertion order, one document per
  \<^verbatim>\<open>_id\<close>; a \<^verbatim>\<open>Date\<close> is its time value in milliseconds, or invalid
  (\<^verbatim>\<open>NaN\<close>). A number is the exact value of a double; the arithmetic that computes the
  attendance percentage rounds as doubles do (\<open>double\<close> below). The clock is read once
  per operation: every \<^verbatim>\<open>new Date()\<close> inside one call is the argument \<open>now\<close>.
\<close>

type_synonym oid = string
type_synonym time = int

datatype Date = Date time | InvalidDate

datatype UserRole = ADMIN | EMPLOYEE

record User =
  user_id :: string
  user_role :: UserRole

text \<open>\<^verbatim>\<open>IEmployee\<close> (types/index.ts, models/employee.ts); \<open>doc_id\<close> is \<^verbatim>\<open>_id\<close> and
  \<open>class_name\<close> is \<^verbatim>\<open>class\<close>.\<close>

record Employee =
  doc_id :: oid
  name :: string
  email :: string
  age :: int
  phone :: "string option"
  class_name :: string
  subjects :: "string list"
  attendance :: rat
  role :: UserRole
  dateOfJoining :: time
  lastAttendanceUpdate :: "time option"
  createdAt :: time
  updatedAt :: time

text \<open>\<^verbatim>\<open>AttendanceInput\<close> is what the mutation receives, its \<^verbatim>\<open>employeeId\<close> a string; the
  stored document (\<^verbatim>\<open>IAttendanceRecordBase\<close>) holds object ids and a valid date;
  \<open>notes'\<close> is \<^verbatim>\<open>notes\<close>. The identifier and the timestamps that the store generates for
  a record are read by no operation below and are left out.\<close>

record AttendanceInput =
  employeeId :: string
  date :: Date
  present :: bool
  notes' :: "string option"

record AttendanceRecord =
  employeeId :: oid
  date :: time
  present :: bool
  notes' :: "string option"
  createdBy :: oid

record store =
  employees :: "Employee list"
  attendanceRecords :: "AttendanceRecord list"

section \<open>Errors and responses\<close>

text \<open>
  Everything the modelled code throws is an \<^verbatim>\<open>Error\<close>: a \<^verbatim>\<open>GraphQLError\<close>, a plain
  \<^verbatim>\<open>Error\<close>, the \<^verbatim>\<open>BSONError\<close> of the object id constructor, the \<^verbatim>\<open>CastError\<close> of a
  query, the document validation error of the store layer (one message per failed path),
  or the duplicate-key error of a unique index. The resolvers read only the message of
  what they catch. Of the duplicate-key message the model keeps the code and the name of
  the index; the server's text also names the collection and the offending key.
\<close>

datatype error =
    GraphQLError string
  | Error string
  | BSONError string
  | CastError string
  | ValidationFailed "(string \<times> string) list"
  | DuplicateKey string

fun join_paths :: "(string \<times> string) list \<Rightarrow> string" where
  "join_paths [] = []"
| "join_paths [(p, m)] = p @ '': '' @ m"
| "join_paths ((p, m) # rest) = p @ '': '' @ m @ '', '' @ join_paths rest"

fun error_message :: "error \<Rightarrow> string" where
  "error_message (GraphQLError m) = m"
| "error_message (Error m) = m"
| "error_message (BSONError m) = m"
| "error_message (CastError m) = m"
| "error_message (ValidationFailed ps) = ''AttendanceRecord validation failed: '' @ join_paths ps"
| "error_message (DuplicateKey ix) = ''E11000 duplicate key error index: '' @ ix"

record ValidationError =
  field :: "string option"
  message :: string
  code :: string

record MutationResponse =
  success :: bool
  message :: "string option"
  employee :: "Employee option"
  errors :: "ValidationError list option"

section \<open>Object ids (the store driver)\<close>

text \<open>
  \<^verbatim>\<open>new Types.ObjectId(s)\<close> accepts a string of 12 bytes, whose bytes become the id, or
  a string of 24 hexadecimal digits in either case, and throws for every other string;
  \<^verbatim>\<open>toString()\<close> writes the 12 bytes as lower-case hexadecimal digits. So the
  convertible strings are many, and only the 24 lower-case digits convert to themselves.
\<close>

definition to_lower :: "char \<Rightarrow> char" where
  "to_lower c =
     (case map_of (zip ''ABCDEFGHIJKLMNOPQRSTUVWXYZ'' ''abcdefghijklmnopqrstuvwxyz'') c of
        None \<Rightarrow> c
      | Some l \<Rightarrow> l)"

definition toLowerCase :: "string \<Rightarrow> string" where
  "toLowerCase s = map to_lower s"

definition hexdigit :: "nat \<Rightarrow> char" where
  "hexdigit d = ''0123456789abcdef'' ! (d mod 16)"

definition is_hex :: "char \<Rightarrow> bool" where
  "is_hex c = (c \<in> set ''0123456789abcdefABCDEF'')"

definition toHex :: "string \<Rightarrow> string" where
  "toHex s = concat (map (\<lambda>c. [hexdigit ((of_char c :: nat) div 16), hexdigit (of_char c)]) s)"

definition ObjectId :: "string \<Rightarrow> error + oid" where
  "ObjectId s =
     (if length s = 12 then Inr (toHex s)
      else if length s = 24 \<and> list_all is_hex s then Inr (toLowerCase s)
      else Inl (BSONError ''Argument passed in must be a string of 12 bytes or a string of 24 hex characters or an integer''))"

text \<open>\<^verbatim>\<open>ids.map(id => new Types.ObjectId(id))\<close>: the first string that does not convert
  throws.\<close>

fun mapObjectId :: "string list \<Rightarrow> error + oid list" where
  "mapObjectId [] = Inr []"
| "mapObjectId (s # ss) =
     (case ObjectId s of
        Inl e \<Rightarrow> Inl e
      | Inr i \<Rightarrow> (case mapObjectId ss of Inl e \<Rightarrow> Inl e | Inr oids \<Rightarrow> Inr (i # oids)))"

text \<open>
  The store layer casts a string where a schema path or the \<^verbatim>\<open>_id\<close> of a query wants an
  object id, with the same constructor; these are the messages of its cast errors, for a
  path of a document and for \<^verbatim>\<open>findById\<close> on the employees.
\<close>

definition quoted :: "string \<Rightarrow> string" where
  "quoted s = CHR 0x22 # s @ [CHR 0x22]"

definition castFailed :: "string \<Rightarrow> string \<Rightarrow> string" where
  "castFailed v path =
     ''Cast to ObjectId failed for value '' @ quoted v @ '' (type string) at path '' @
     quoted path"

definition castId :: "string \<Rightarrow> error + oid" where
  "castId s =
     (case ObjectId s of
        Inl e \<Rightarrow>
          Inl (CastError (castFailed s ''_id'' @ '' for model '' @ quoted ''Employee'' @
                          '' because of '' @ quoted ''BSONError''))
      | Inr i \<Rightarrow> Inr i)"

section \<open>Double-precision arithmetic\<close>

text \<open>
  \<open>double x\<close> is the double nearest to \<open>x\<close>, ties to the even significand: \<open>x\<close> is
  rounded to a multiple of the unit in the last place, \<open>2\<close> to the power of
  \<open>\<lfloor>log\<^sub>2 \<bar>x\<bar>\<rfloor> - 52\<close> (of \<open>-1074\<close> below the normal range). The operands met
  here lie between \<open>0\<close> and \<open>128\<close>, far from overflow. A count is a double as it stands,
  being below \<open>2\<^sup>5\<^sup>3\<close>.
\<close>

definition round_half_even :: "rat \<Rightarrow> int" where
  "round_half_even y =
     (let f = \<lfloor>y\<rfloor>; d = y - of_int f
      in if d < 1 / 2 then f else if 1 / 2 < d then f + 1 else if even f then f else f + 1)"

text \<open>\<open>\<lfloor>log\<^sub>2 x\<rfloor>\<close> for a positive \<open>x\<close>, from the bit length of an integer.\<close>

definition exponent :: "rat \<Rightarrow> int" where
  "exponent x = (if 1 \<le> x then bitlen \<lfloor>x\<rfloor> - 1 else - bitlen (\<lceil>1 / x\<rceil> - 1))"

definition double :: "rat \<Rightarrow> rat" where
  "double x =
     (if x = 0 then 0
      else let ulp = 2 powi (max (exponent \<bar>x\<bar>) (- 1022) - 52)
           in of_int (round_half_even (x / ulp)) * ulp)"

section \<open>Access control (middleware/auth.ts)\<close>

definition checkRole :: "UserRole list \<Rightarrow> User option \<Rightarrow> error + bool" where
  "checkRole requiredRoles user =
     (case user of
        None \<Rightarrow> Inl (GraphQLError ''Authentication required'')
      | Some u \<Rightarrow>
          if user_role u \<notin> set requiredRoles then Inl (GraphQLError ''Not authorized'')
          else Inr True)"


section \<open>Validation (utils/validation.ts)\<close>

definition validateDate :: "time \<Rightarrow> Date \<Rightarrow> bool" where
  "validateDate now d = (case d of InvalidDate \<Rightarrow> False | Date t \<Rightarrow> t \<le> now)"

definition validateAttendanceInput :: "time \<Rightarrow> AttendanceInput \<Rightarrow> ValidationError list" where
  "validateAttendanceInput now input =
     (if \<not> validateDate now (AttendanceInput.date input)
      then [\<lparr>field = Some ''date'',
             message = ''Invalid date or future date not allowed'',
             code = ''INVALID_DATE''\<rparr>]
      else [])
     @
     (if (case AttendanceInput.notes' input of
            None \<Rightarrow> False
          | Some s \<Rightarrow> s \<noteq> [] \<and> length s > 500)
      then [\<lparr>field = Some ''notes'',
             message = ''Notes cannot exceed 500 characters'',
             code = ''INVALID_NOTES''\<rparr>]
      else [])"

section \<open>Attendance consistency engine (models/employee.ts)\<close>

text \<open>The queries and methods of this section take the object id that the query cast makes
  of their argument; a caller that holds a string casts it first (\<open>castId\<close>).\<close>

definition findById :: "oid \<Rightarrow> Employee list \<Rightarrow> Employee option" where
  "findById i es = find (\<lambda>e. doc_id e = i) es"

text \<open>\<^verbatim>\<open>this.save()\<close> writes the document back under its \<^verbatim>\<open>_id\<close> and stamps
  \<^verbatim>\<open>updatedAt\<close>. Stored employees satisfy the schema validators, and the recomputed
  percentage lies in the validated range, so the write is modelled as succeeding.\<close>

definition save :: "time \<Rightarrow> Employee \<Rightarrow> store \<Rightarrow> store" where
  "save now this st =
     st\<lparr>employees :=
          map (\<lambda>e. if doc_id e = doc_id this then this\<lparr>updatedAt := now\<rparr> else e)
              (employees st)\<rparr>"

text \<open>\<^verbatim>\<open>(presentDays / records.length) * 100\<close>: a division and a multiplication of
  doubles, each rounded.\<close>

definition attendancePercentage :: "AttendanceRecord list \<Rightarrow> rat" where
  "attendancePercentage records =
     (if length records = 0 then 100
      else double
             (double (of_nat (length (filter present records)) / of_nat (length records))
              * 100))"

definition updateAttendancePercentage :: "time \<Rightarrow> Employee \<Rightarrow> store \<Rightarrow> store" where
  "updateAttendancePercentage now this st =
     (let records = filter (\<lambda>r. employeeId r = doc_id this) (attendanceRecords st)
      in save now
           (this\<lparr>attendance := attendancePercentage records,
                 lastAttendanceUpdate := Some now\<rparr>)
           st)"

definition updateAttendanceStats :: "time \<Rightarrow> oid \<Rightarrow> store \<Rightarrow> store" where
  "updateAttendanceStats now eid st =
     (case findById eid (employees st) of
        None \<Rightarrow> st
      | Some emp \<Rightarrow> updateAttendancePercentage now emp st)"

definition calculateAttendancePercentage :: "time \<Rightarrow> oid \<Rightarrow> store \<Rightarrow> error + (store \<times> rat)" where
  "calculateAttendancePercentage now eid st =
     (case findById eid (employees st) of
        None \<Rightarrow> Inl (Error ''Employee not found'')
      | Some emp \<Rightarrow>
          Inr (updateAttendancePercentage now emp st,
               attendancePercentage
                 (filter (\<lambda>r. employeeId r = doc_id emp) (attendanceRecords st))))"

section \<open>Attendance records (models/attendanceRecord.ts)\<close>

text \<open>
  \<^verbatim>\<open>AttendanceRecord.create\<close> runs, in this order: the casts and validators of the schema,
  the \<^verbatim>\<open>pre('save')\<close> hook, the insertion under the unique index on
  \<^verbatim>\<open>(employeeId, date)\<close>, and the \<^verbatim>\<open>post('save')\<close> hook. The schema casts
  \<^verbatim>\<open>employeeId\<close> to an object id and \<^verbatim>\<open>date\<close> to a date, validates the date with
  \<^verbatim>\<open>validateDate\<close>, trims \<^verbatim>\<open>notes\<close> and limits it to 500 characters; a path whose cast
  failed is not validated further, and the document is saved only when no path has an
  error. \<^verbatim>\<open>createdBy\<close> arrives as an object id.
\<close>

definition is_space :: "char \<Rightarrow> bool" where
  "is_space c = (c \<in> set [CHR '' '', CHR 0x09, CHR 0x0A, CHR 0x0B, CHR 0x0C, CHR 0x0D])"

definition trim :: "string \<Rightarrow> string" where
  "trim s = rev (dropWhile is_space (rev (dropWhile is_space s)))"

definition employeeIdErrors :: "string \<Rightarrow> (string \<times> string) list" where
  "employeeIdErrors s =
     (case ObjectId s of
        Inl e \<Rightarrow>
          [(''employeeId'',
            castFailed s ''employeeId'' @ '' because of '' @ quoted ''BSONError'')]
      | Inr i \<Rightarrow> [])"

definition dateErrors :: "time \<Rightarrow> Date \<Rightarrow> (string \<times> string) list" where
  "dateErrors now d =
     (case d of
        InvalidDate \<Rightarrow>
          [(''date'',
            ''Cast to date failed for value '' @ quoted ''Invalid Date'' @
            '' (type Date) at path '' @ quoted ''date'')]
      | Date t \<Rightarrow>
          if validateDate now (Date t) then []
          else [(''date'', ''Invalid date or future date not allowed'')])"

definition notesErrors :: "string option \<Rightarrow> (string \<times> string) list" where
  "notesErrors trimmed =
     (case trimmed of
        None \<Rightarrow> []
      | Some s \<Rightarrow>
          if length s > 500 then [(''notes'', ''Notes cannot exceed 500 characters'')]
          else [])"

definition castAndValidate :: "time \<Rightarrow> AttendanceInput \<Rightarrow> oid \<Rightarrow> error + AttendanceRecord" where
  "castAndValidate now input creator =
     (let trimmed = map_option trim (AttendanceInput.notes' input);
          errs = employeeIdErrors (AttendanceInput.employeeId input) @
                 dateErrors now (AttendanceInput.date input) @
                 notesErrors trimmed
      in case (ObjectId (AttendanceInput.employeeId input), AttendanceInput.date input) of
           (Inr i, Date t) \<Rightarrow>
             if errs = []
             then Inr \<lparr>employeeId = i,
                       date = t,
                       present = AttendanceInput.present input,
                       notes' = trimmed,
                       createdBy = creator\<rparr>
             else Inl (ValidationFailed errs)
         | _ \<Rightarrow> Inl (ValidationFailed errs))"

definition preSave :: "time \<Rightarrow> AttendanceRecord \<Rightarrow> store \<Rightarrow> error + unit" where
  "preSave now this st =
     (case findById (employeeId this) (employees st) of
        None \<Rightarrow> Inl (Error ''Employee not found'')
      | Some emp \<Rightarrow>
          if date this > now then Inl (Error ''Future dates are not allowed'')
          else Inr ())"

definition insertOne :: "AttendanceRecord \<Rightarrow> store \<Rightarrow> error + store" where
  "insertOne doc st =
     (if \<exists>r \<in> set (attendanceRecords st). employeeId r = employeeId doc \<and> date r = date doc
      then Inl (DuplicateKey ''employeeId_1_date_1'')
      else Inr (st\<lparr>attendanceRecords := attendanceRecords st @ [doc]\<rparr>))"

definition postSave :: "time \<Rightarrow> AttendanceRecord \<Rightarrow> store \<Rightarrow> store" where
  "postSave now doc st = updateAttendanceStats now (employeeId doc) st"

definition AttendanceRecord_create :: "time \<Rightarrow> AttendanceInput \<Rightarrow> oid \<Rightarrow> store \<Rightarrow> error + store" where
  "AttendanceRecord_create now input creator st =
     (case castAndValidate now input creator of
        Inl e \<Rightarrow> Inl e
      | Inr doc \<Rightarrow>
          (case preSave now doc st of
             Inl e \<Rightarrow> Inl e
           | Inr _ \<Rightarrow>
               (case insertOne doc st of
                  Inl e \<Rightarrow> Inl e
                | Inr st' \<Rightarrow> Inr (postSave now doc st'))))"

section \<open>The markAttendance mutation (resolvers/index.ts)\<close>

text \<open>
  The resolver returns the store it leaves behind together with either the error it throws
  (\<open>Inl\<close>) or its response (\<open>Inr\<close>). Whatever is thrown inside its \<^verbatim>\<open>try\<close> block is an
  \<^verbatim>\<open>Error\<close> and becomes the payload built by \<open>failedToMark\<close>. After the validation of
  the input the resolver converts the caller's id for \<^verbatim>\<open>createdBy\<close>, creates the record,
  and calls \<^verbatim>\<open>Employee.updateAttendanceStats\<close> with the string \<^verbatim>\<open>input.employeeId\<close>,
  which \<^verbatim>\<open>findById\<close> casts.
\<close>

definition failedToMark :: "error \<Rightarrow> MutationResponse" where
  "failedToMark e =
     \<lparr>success = False,
      message = Some ''Failed to mark attendance'',
      employee = None,
      errors = Some [\<lparr>field = None, message = error_message e, code = ''INTERNAL_SERVER_ERROR''\<rparr>]\<rparr>"

definition markAttendance ::
  "time \<Rightarrow> User option \<Rightarrow> AttendanceInput \<Rightarrow> store \<Rightarrow> store \<times> (error + MutationResponse)" where
  "markAttendance now user input st =
     (case user of
        None \<Rightarrow> (st, Inl (GraphQLError ''Not authenticated''))
      | Some u \<Rightarrow>
          (case checkRole [ADMIN] user of
             Inl e \<Rightarrow> (st, Inr (failedToMark e))
           | Inr _ \<Rightarrow>
               let validationErrors = validateAttendanceInput now input
               in if length validationErrors > 0
                  then (st, Inr \<lparr>success = False, message = None, employee = None,
                                 errors = Some validationErrors\<rparr>)
                  else
                    (case ObjectId (user_id u) of
                       Inl e \<Rightarrow> (st, Inr (failedToMark e))
                     | Inr creator \<Rightarrow>
                         (case AttendanceRecord_create now input creator st of
                            Inl e \<Rightarrow> (st, Inr (failedToMark e))
                          | Inr st' \<Rightarrow>
                              (case castId (AttendanceInput.employeeId input) of
                                 Inl e \<Rightarrow> (st', Inr (failedToMark e))
                               | Inr i \<Rightarrow>
                                   (updateAttendanceStats now i st',
                                    Inr \<lparr>success = True,
                                         message = Some ''Attendance marked successfully'',
                                         employee = None,
                                         errors = None\<rparr>))))))"

text \<open>Names for the other two payloads of \<^verbatim>\<open>markAttendance\<close>: the one that carries the
  validation errors and the one that reports success.\<close>

definition invalidInput :: "ValidationError list \<Rightarrow> MutationResponse" where
  "invalidInput validationErrors =
     \<lparr>success = False, message = None, employee = None, errors = Some validationErrors\<rparr>"


section \<open>The employees query (resolvers/index.ts)\<close>

text \<open>
  \<^verbatim>\<open>EmployeeFilter\<close> (types/index.ts); \<open>f_name\<close>, \<open>f_class\<close>, \<open>f_subjects\<close> and \<open>f_role\<close>
  are its fields \<^verbatim>\<open>name\<close>, \<^verbatim>\<open>class\<close>, \<^verbatim>\<open>subjects\<close> and \<^verbatim>\<open>role\<close>. An absent or
  \<^verbatim>\<open>null\<close> field is \<open>None\<close>.
\<close>

record DateRangeInput =
  startDate :: time
  endDate :: time

record EmployeeFilter =
  f_name :: "string option"
  f_class :: "string option"
  minAge :: "int option"
  maxAge :: "int option"
  minAttendance :: "rat option"
  maxAttendance :: "rat option"
  f_subjects :: "string list option"
  f_role :: "UserRole option"
  dateRange :: "DateRangeInput option"

text \<open>
  The object \<^verbatim>\<open>query\<close> that the resolver builds has at most the keys \<^verbatim>\<open>name\<close>
  (\<^verbatim>\<open>$regex\<close> with \<^verbatim>\<open>$options\<close>), \<^verbatim>\<open>class\<close>, \<^verbatim>\<open>age\<close> and \<^verbatim>\<open>attendance\<close> (each an
  object with \<^verbatim>\<open>$gte\<close> and \<^verbatim>\<open>$lte\<close>), \<^verbatim>\<open>subjects\<close> (\<^verbatim>\<open>$all\<close>) and \<^verbatim>\<open>role\<close>; a key
  that is not set is \<open>None\<close>.
\<close>

record range =
  gte :: "rat option"
  lte :: "rat option"

record query =
  q_name :: "(string \<times> string) option"
  q_class :: "string option"
  q_age :: "range option"
  q_attendance :: "range option"
  q_subjects :: "string list option"
  q_role :: "UserRole option"

definition empty_query :: query where
  "empty_query =
     \<lparr>q_name = None, q_class = None, q_age = None, q_attendance = None, q_subjects = None,
      q_role = None\<rparr>"

text \<open>\<^verbatim>\<open>{ ...query['age'] }\<close>: the keys set so far, none if the key is still undefined.\<close>

definition spread :: "range option \<Rightarrow> range" where
  "spread r = (case r of None \<Rightarrow> \<lparr>gte = None, lte = None\<rparr> | Some x \<Rightarrow> x)"

text \<open>
  The resolver fills \<^verbatim>\<open>query\<close> with one \<^verbatim>\<open>if\<close> statement per filter field, in the order
  of the functions below; each takes the query built so far. The conditions
  \<^verbatim>\<open>if (filter.minAge)\<close> and the like test the truthiness of the value: an absent value,
  the number \<open>0\<close>, the empty string and (through \<^verbatim>\<open>?.length\<close>) the empty list do not
  pass.
\<close>

definition set_name :: "EmployeeFilter \<Rightarrow> query \<Rightarrow> query" where
  "set_name f q =
     (case f_name f of
        None \<Rightarrow> q
      | Some n \<Rightarrow> if n \<noteq> [] then q\<lparr>q_name := Some (n, ''i'')\<rparr> else q)"

definition set_class :: "EmployeeFilter \<Rightarrow> query \<Rightarrow> query" where
  "set_class f q =
     (case f_class f of
        None \<Rightarrow> q
      | Some c \<Rightarrow> if c \<noteq> [] then q\<lparr>q_class := Some c\<rparr> else q)"

definition set_minAge :: "EmployeeFilter \<Rightarrow> query \<Rightarrow> query" where
  "set_minAge f q =
     (case minAge f of
        None \<Rightarrow> q
      | Some a \<Rightarrow>
          if a \<noteq> 0 then q\<lparr>q_age := Some \<lparr>gte = Some (of_int a), lte = None\<rparr>\<rparr> else q)"

definition set_maxAge :: "EmployeeFilter \<Rightarrow> query \<Rightarrow> query" where
  "set_maxAge f q =
     (case maxAge f of
        None \<Rightarrow> q
      | Some b \<Rightarrow>
          if b \<noteq> 0 then q\<lparr>q_age := Some ((spread (q_age q))\<lparr>lte := Some (of_int b)\<rparr>)\<rparr>
          else q)"

definition set_minAttendance :: "EmployeeFilter \<Rightarrow> query \<Rightarrow> query" where
  "set_minAttendance f q =
     (case minAttendance f of
        None \<Rightarrow> q
      | Some a \<Rightarrow>
          if a \<noteq> 0 then q\<lparr>q_attendance := Some \<lparr>gte = Some a, lte = None\<rparr>\<rparr> else q)"

definition set_maxAttendance :: "EmployeeFilter \<Rightarrow> query \<Rightarrow> query" where
  "set_maxAttendance f q =
     (case maxAttendance f of
        None \<Rightarrow> q
      | Some b \<Rightarrow>
          if b \<noteq> 0 then q\<lparr>q_attendance := Some ((spread (q_attendance q))\<lparr>lte := Some b\<rparr>)\<rparr>
          else q)"

definition set_subjects :: "EmployeeFilter \<Rightarrow> query \<Rightarrow> query" where
  "set_subjects f q =
     (case f_subjects f of
        None \<Rightarrow> q
      | Some ss \<Rightarrow> if length ss \<noteq> 0 then q\<lparr>q_subjects := Some ss\<rparr> else q)"

definition set_role :: "EmployeeFilter \<Rightarrow> query \<Rightarrow> query" where
  "set_role f q = (case f_role f of None \<Rightarrow> q | Some r \<Rightarrow> q\<lparr>q_role := Some r\<rparr>)"

definition employees_query :: "EmployeeFilter option \<Rightarrow> query" where
  "employees_query flt =
     (case flt of
        None \<Rightarrow> empty_query
      | Some f \<Rightarrow>
          set_role f
            (set_subjects f
               (set_maxAttendance f
                  (set_minAttendance f
                     (set_maxAge f
                        (set_minAge f
                           (set_class f
                              (set_name f empty_query))))))))"

text \<open>
  What the store makes of such a query: a document matches when it satisfies the condition
  under every key that is set. The regular expression engine of the store is the
  parameter \<open>regex\<close> (pattern, options, subject).
\<close>

definition in_range :: "range \<Rightarrow> rat \<Rightarrow> bool" where
  "in_range r x =
     ((case gte r of None \<Rightarrow> True | Some a \<Rightarrow> a \<le> x) \<and>
      (case lte r of None \<Rightarrow> True | Some b \<Rightarrow> x \<le> b))"

definition matches :: "(string \<Rightarrow> string \<Rightarrow> string \<Rightarrow> bool) \<Rightarrow> query \<Rightarrow> Employee \<Rightarrow> bool" where
  "matches regex q e =
     ((case q_name q of None \<Rightarrow> True | Some (pat, opts) \<Rightarrow> regex pat opts (name e)) \<and>
      (case q_class q of None \<Rightarrow> True | Some c \<Rightarrow> class_name e = c) \<and>
      (case q_age q of None \<Rightarrow> True | Some r \<Rightarrow> in_range r (of_int (age e))) \<and>
      (case q_attendance q of None \<Rightarrow> True | Some r \<Rightarrow> in_range r (attendance e)) \<and>
      (case q_subjects q of None \<Rightarrow> True | Some ss \<Rightarrow> set ss \<subseteq> set (subjects e)) \<and>
      (case q_role q of None \<Rightarrow> True | Some r \<Rightarrow> role e = r))"

text \<open>
  The sort argument reaches the resolver as the name of the enumeration value. The values
  that the schema (schema/index.ts) admits, those of the TypeScript enumeration
  (types/index.ts), and the paths of an employee document.
\<close>

definition EmployeeSort_schema :: "string list" where
  "EmployeeSort_schema =
     [''NAME_ASC'', ''NAME_DESC'', ''AGE_ASC'', ''AGE_DESC'', ''CLASS_ASC'', ''CLASS_DESC'',
      ''ATTENDANCE_ASC'', ''ATTENDANCE_DESC'', ''CREATED_AT_ASC'', ''CREATED_AT_DESC'']"

definition EmployeeSort_enum :: "string list" where
  "EmployeeSort_enum =
     [''NAME_ASC'', ''NAME_DESC'', ''AGE_ASC'', ''AGE_DESC'', ''ATTENDANCE_ASC'',
      ''ATTENDANCE_DESC'', ''DATE_JOINED_ASC'', ''DATE_JOINED_DESC'']"

definition Employee_paths :: "string list" where
  "Employee_paths =
     [''_id'', ''name'', ''email'', ''age'', ''phone'', ''class'', ''subjects'', ''attendance'',
      ''role'', ''dateOfJoining'', ''lastAttendanceUpdate'', ''createdAt'', ''updatedAt'']"

definition endsWith :: "string \<Rightarrow> string \<Rightarrow> bool" where
  "endsWith s suf = (length suf \<le> length s \<and> drop (length s - length suf) s = suf)"

text \<open>\<^verbatim>\<open>sortObj\<close>: one key with the direction \<open>1\<close> or \<open>-1\<close>.\<close>

definition employees_sortObj :: "string option \<Rightarrow> string \<times> int" where
  "employees_sortObj srt =
     (case srt of
        None \<Rightarrow> (''createdAt'', -1)
      | Some s \<Rightarrow>
          if s \<noteq> [] then (toLowerCase s, if endsWith s ''_DESC'' then -1 else 1)
          else (''createdAt'', -1))"

text \<open>
  A JavaScript number as far as the page arithmetic needs it: \<^verbatim>\<open>totalCount / pageSize\<close>
  is a rational, or \<^verbatim>\<open>Infinity\<close> or \<^verbatim>\<open>NaN\<close> when \<^verbatim>\<open>pageSize\<close> is \<open>0\<close>. Within the range of
  the 32-bit integers of the schema the quotient is rounded by less than half of
  \<open>1 / pageSize\<close>, so \<^verbatim>\<open>Math.ceil\<close> of it is the exact ceiling.
\<close>

datatype number = Num rat | Infinity | NaN

definition divide_count :: "nat \<Rightarrow> int \<Rightarrow> number" where
  "divide_count n d =
     (if d \<noteq> 0 then Num (of_nat n / of_int d) else if n = 0 then NaN else Infinity)"

definition Math_ceil :: "number \<Rightarrow> number" where
  "Math_ceil x = (case x of Num r \<Rightarrow> Num (of_int \<lceil>r\<rceil>) | Infinity \<Rightarrow> Infinity | NaN \<Rightarrow> NaN)"

definition less_than :: "int \<Rightarrow> number \<Rightarrow> bool" where
  "less_than p x = (case x of Num r \<Rightarrow> of_int p < r | Infinity \<Rightarrow> True | NaN \<Rightarrow> False)"

record PageInfo =
  hasNextPage :: bool
  hasPreviousPage :: bool
  totalPages :: number
  totalCount :: nat
  currentPage :: int

record GraphQLEmployee = Employee +
  id' :: string

record EmployeeQueryResult =
  edges :: "GraphQLEmployee list"
  pageInfo :: PageInfo

definition toGraphQLEmployees :: "Employee list \<Rightarrow> GraphQLEmployee list" where
  "toGraphQLEmployees es = map (\<lambda>e. Employee.extend e \<lparr>id' = doc_id e\<rparr>) es"

text \<open>
  The store side of the query. \<^verbatim>\<open>countDocuments\<close> counts the matching documents;
  \<^verbatim>\<open>find(query).sort(sortObj).skip(skip).limit(limit)\<close> orders the matching documents with
  the store's sorting (the parameter \<open>order\<close>), rejects a negative \<^verbatim>\<open>skip\<close>, and returns
  at most \<open>|limit|\<close> documents, all of them when the limit is \<open>0\<close>.
\<close>

definition countDocuments ::
  "(string \<Rightarrow> string \<Rightarrow> string \<Rightarrow> bool) \<Rightarrow> query \<Rightarrow> Employee list \<Rightarrow> nat" where
  "countDocuments regex q es = length (filter (matches regex q) es)"

definition Employee_find ::
  "(string \<Rightarrow> string \<Rightarrow> string \<Rightarrow> bool) \<Rightarrow> (string \<times> int \<Rightarrow> Employee list \<Rightarrow> Employee list) \<Rightarrow>
   query \<Rightarrow> string \<times> int \<Rightarrow> int \<Rightarrow> int \<Rightarrow> Employee list \<Rightarrow> error + Employee list" where
  "Employee_find regex order q sortObj skip limit es =
     (if skip < 0 then Inl (Error ''Skip value must be non-negative'')
      else
        let rest = drop (nat skip) (order sortObj (filter (matches regex q) es))
        in Inr (if limit = 0 then rest else take (nat \<bar>limit\<bar>) rest))"

text \<open>The resolver \<^verbatim>\<open>Query.employees\<close>; \<^verbatim>\<open>page\<close> and \<^verbatim>\<open>pageSize\<close> default to \<open>1\<close> and
  \<open>10\<close>.\<close>

definition Query_employees ::
  "(string \<Rightarrow> string \<Rightarrow> string \<Rightarrow> bool) \<Rightarrow> (string \<times> int \<Rightarrow> Employee list \<Rightarrow> Employee list) \<Rightarrow>
   User option \<Rightarrow> EmployeeFilter option \<Rightarrow> string option \<Rightarrow> int option \<Rightarrow> int option \<Rightarrow>
   store \<Rightarrow> error + EmployeeQueryResult" where
  "Query_employees regex order user flt srt page_arg pageSize_arg st =
     (let page = (case page_arg of None \<Rightarrow> 1 | Some p \<Rightarrow> p);
          pageSize = (case pageSize_arg of None \<Rightarrow> 10 | Some n \<Rightarrow> n)
      in case user of
           None \<Rightarrow> Inl (GraphQLError ''Not authenticated'')
         | Some u \<Rightarrow>
             (case checkRole [ADMIN, EMPLOYEE] user of
                Inl e \<Rightarrow> Inl e
              | Inr _ \<Rightarrow>
                  let skip = (page - 1) * pageSize;
                      q = employees_query flt;
                      sortObj = employees_sortObj srt;
                      count = countDocuments regex q (employees st);
                      pages = Math_ceil (divide_count count pageSize)
                  in case Employee_find regex order q sortObj skip pageSize (employees st) of
                       Inl e \<Rightarrow> Inl (GraphQLError (error_message e))
                     | Inr found \<Rightarrow>
                         Inr \<lparr>edges = toGraphQLEmployees found,
                              pageInfo =
                                \<lparr>hasNextPage = less_than page pages,
                                 hasPreviousPage = page > 1,
                                 totalPages = pages,
                                 totalCount = count,
                                 currentPage = page\<rparr>\<rparr>))"

section \<open>Batch loaders (utils/dataloaders.ts)\<close>

text \<open>
  The loaders are instances of the \<^verbatim>\<open>dataloader\<close> library, created for each request with
  \<^verbatim>\<open>cache: true\<close> and \<^verbatim>\<open>maxBatchSize: 100\<close>; a key is the string that was loaded. The
  library collects the keys loaded in one tick of execution: a key that was loaded before
  is served from the cache and is not queued again, the queued keys go to the batch
  function in batches of at most \<^verbatim>\<open>maxBatchSize\<close>, and every load receives the value at
  the position of its key, or the error of its batch. A batch function returns the
  queries it has sent to the store together with its result; \<open>loadMany\<close> returns the
  outcome of every load (\<open>None\<close>: the load is never answered) and the store queries of
  all calls of the batch function, in order.
\<close>

datatype store_query = FindEmployees "oid list" | FindAttendanceRecords "oid list"

definition maxBatchSize :: nat where
  "maxBatchSize = 100"

primrec enqueue :: "string list \<Rightarrow> string list \<Rightarrow> string list" where
  "enqueue cached [] = []"
| "enqueue cached (k # ks) =
     (if k \<in> set cached then enqueue cached ks else k # enqueue (k # cached) ks)"

fun chunks :: "nat \<Rightarrow> 'a list \<Rightarrow> 'a list list" where
  "chunks n [] = []"
| "chunks n (x # xs) =
     (if n = 0 then [] else take n (x # xs) # chunks n (drop n (x # xs)))"

definition dispatchBatch ::
  "(string list \<Rightarrow> store_query list \<times> (error + 'v list)) \<Rightarrow> string list \<Rightarrow>
   (string \<times> (error + 'v)) list" where
  "dispatchBatch batchFn keys =
     (case snd (batchFn keys) of
        Inl e \<Rightarrow> map (\<lambda>k. (k, Inl e)) keys
      | Inr values \<Rightarrow>
          if length values \<noteq> length keys
          then map (\<lambda>k. (k, Inl (Error ''DataLoader must be constructed with a function which accepts Array<key> and returns Promise<Array<value>>''))) keys
          else zip keys (map Inr values))"

definition loadMany ::
  "(string list \<Rightarrow> store_query list \<times> (error + 'v list)) \<Rightarrow> string list \<Rightarrow>
   (error + 'v) option list \<times> store_query list" where
  "loadMany batchFn keys =
     (let batches = chunks maxBatchSize (enqueue [] keys);
          settled = concat (map (dispatchBatch batchFn) batches);
          queries = concat (map (\<lambda>batch. fst (batchFn batch)) batches)
      in (map (map_of settled) keys, queries))"


text \<open>
  The batch function of \<^verbatim>\<open>employeeLoader\<close>. It converts every key to an object id, which
  throws before any query is sent if one of them does not convert, and sends one
  \<^verbatim>\<open>find\<close> with the ids under \<^verbatim>\<open>$in\<close>. The documents come back \<^verbatim>\<open>lean\<close>, typed with
  an optional \<^verbatim>\<open>_id\<close> (\<open>lean_id\<close>), which the store sets on every document it returns; the
  \<^verbatim>\<open>Map\<close> is keyed by \<^verbatim>\<open>_id.toString()\<close> and keeps the last entry of a key;
  \<^verbatim>\<open>employeeMap.get(id) || null\<close> looks the key up as it was loaded and is \<open>None\<close> for a
  key without entry.
\<close>

definition lean_id :: "Employee \<Rightarrow> oid option" where
  "lean_id e = Some (doc_id e)"

definition employeeLoader_batch ::
  "store \<Rightarrow> string list \<Rightarrow> store_query list \<times> (error + GraphQLEmployee option list)" where
  "employeeLoader_batch st ids =
     (case mapObjectId ids of
        Inl e \<Rightarrow> ([], Inl e)
      | Inr oids \<Rightarrow>
          let found = filter (\<lambda>e. doc_id e \<in> set oids) (employees st)
          in ([FindEmployees oids],
              if \<exists>e \<in> set found. lean_id e = None
              then Inl (Error ''Employee missing _id'')
              else
                let employeeMap =
                      map_of (rev (map (\<lambda>e. (doc_id e, Employee.extend e \<lparr>id' = doc_id e\<rparr>))
                                       found))
                in Inr (map employeeMap ids)))"




section \<open>The attendance invariant of the specification\<close>

text \<open>The percentage in the words of the specification: \<open>100 \<times> presentDays / totalDays\<close> over
  the employee's attendance records, or \<open>100\<close> if no records exist.\<close>

definition presentDays :: "store \<Rightarrow> oid \<Rightarrow> nat" where
  "presentDays st eid =
     length (filter (\<lambda>r. employeeId r = eid \<and> present r) (attendanceRecords st))"

definition totalDays :: "store \<Rightarrow> oid \<Rightarrow> nat" where
  "totalDays st eid = length (filter (\<lambda>r. employeeId r = eid) (attendanceRecords st))"

definition spec_attendance :: "store \<Rightarrow> oid \<Rightarrow> rat" where
  "spec_attendance st eid =
     (if totalDays st eid = 0 then 100
      else 100 * of_nat (presentDays st eid) / of_nat (totalDays st eid))"

text \<open>Abbreviations for the proofs: the percentage that a recomputation finds for an
  employee, the document that it writes back, the store after the insertion of the record
  made from an input whose employee is \<open>i\<close> and whose date is \<open>t\<close>, the condition under
  which the unique index rejects an insertion, and whether a string identifies a stored
  employee.\<close>

definition percentageOf :: "store \<Rightarrow> oid \<Rightarrow> rat" where
  "percentageOf st eid =
     attendancePercentage (filter (\<lambda>r. employeeId r = eid) (attendanceRecords st))"

definition recomputed :: "time \<Rightarrow> store \<Rightarrow> Employee \<Rightarrow> Employee" where
  "recomputed now st e =
     e\<lparr>attendance := percentageOf st (doc_id e),
       lastAttendanceUpdate := Some now, updatedAt := now\<rparr>"

definition inserted :: "time \<Rightarrow> AttendanceInput \<Rightarrow> oid \<Rightarrow> oid \<Rightarrow> store \<Rightarrow> store" where
  "inserted t input i creator st =
     st\<lparr>attendanceRecords := attendanceRecords st @
          [\<lparr>employeeId = i, date = t,
            present = AttendanceInput.present input,
            notes' = map_option trim (AttendanceInput.notes' input),
            createdBy = creator\<rparr>]\<rparr>"

definition recordExists :: "store \<Rightarrow> oid \<Rightarrow> time \<Rightarrow> bool" where
  "recordExists st eid t =
     (\<exists>r \<in> set (attendanceRecords st). employeeId r = eid \<and> date r = t)"

definition identifiesEmployee :: "store \<Rightarrow> string \<Rightarrow> bool" where
  "identifiesEmployee st s =
     (case ObjectId s of Inl e \<Rightarrow> False | Inr i \<Rightarrow> findById i (employees st) \<noteq> None)"

section \<open>A small store for concrete runs\<close>

text \<open>
  Two employees, created at times 1 and 2, each stored with the default percentage 100.
  The first has two attendance records (present at time 5, absent at time 6), so its
  stored percentage is stale; the second has none. The callers are an administrator whose
  id is an object id, the administrator of the README, whose id is \<^verbatim>\<open>admin123\<close>, and an
  employee whose id is \<^verbatim>\<open>emp1\<close>.
\<close>

definition ex_admin :: User where
  "ex_admin = \<lparr>user_id = ''64b000000000000000000a01'', user_role = ADMIN\<rparr>"

definition ex_admin123 :: User where
  "ex_admin123 = \<lparr>user_id = ''admin123'', user_role = ADMIN\<rparr>"


definition ex_employee :: "oid \<Rightarrow> string \<Rightarrow> time \<Rightarrow> Employee" where
  "ex_employee i n t =
     \<lparr>doc_id = i, name = n, email = ''staff@example.com'', age = 30, phone = None,
      class_name = ''10A'', subjects = [''Math''], attendance = 100, role = EMPLOYEE,
      dateOfJoining = 0, lastAttendanceUpdate = None, createdAt = t, updatedAt = t\<rparr>"

definition ex_record :: "time \<Rightarrow> bool \<Rightarrow> AttendanceRecord" where
  "ex_record t p =
     \<lparr>employeeId = ''64b000000000000000000e01'', date = t, present = p, notes' = None,
      createdBy = ''64b000000000000000000a01''\<rparr>"

definition ex_store :: store where
  "ex_store =
     \<lparr>employees = [ex_employee ''64b000000000000000000e01'' ''Bob Ray'' 1,
                   ex_employee ''64b000000000000000000e02'' ''Ann Lee'' 2],
      attendanceRecords = [ex_record 5 True, ex_record 6 False]\<rparr>"

definition ex_input :: "string \<Rightarrow> Date \<Rightarrow> string option \<Rightarrow> AttendanceInput" where
  "ex_input i d n =
     \<lparr>AttendanceInput.employeeId = i, AttendanceInput.date = d,
      AttendanceInput.present = False, AttendanceInput.notes' = n\<rparr>"



text \<open>Twenty-five further employees, a store that holds them, a filter with no field set,
  and a store engine for concrete runs whose regular expressions match everything and
  whose sorting leaves the documents as they are.\<close>

definition ex_key :: "nat \<Rightarrow> oid" where
  "ex_key i = [hexdigit (i div 16), hexdigit i] @ ''b000000000000000000f00''"

definition ex_staff :: store where
  "ex_staff =
     \<lparr>employees = map (\<lambda>i. ex_employee (ex_key i) ''Staff'' (int i)) [0..<25],
      attendanceRecords = []\<rparr>"

definition ex_filter :: EmployeeFilter where
  "ex_filter =
     \<lparr>f_name = None, f_class = None, minAge = None, maxAge = None, minAttendance = None,
      maxAttendance = None, f_subjects = None, f_role = None, dateRange = None\<rparr>"

definition ex_regex :: "string \<Rightarrow> string \<Rightarrow> string \<Rightarrow> bool" where
  "ex_regex pat opts subject = True"

definition ex_order :: "string \<times> int \<Rightarrow> Employee list \<Rightarrow> Employee list" where
  "ex_order sortObj es = es"

section \<open>Rounding\<close>

lemma round_half_even_error: "\<bar>of_int (round_half_even y) - y\<bar> \<le> 1 / 2"
proof -
  have "of_int \<lfloor>y\<rfloor> \<le> y" "y < of_int \<lfloor>y\<rfloor> + 1" by linarith+
  then show ?thesis
    by (auto simp: round_half_even_def Let_def)
qed

lemma round_half_even_nonneg: "0 \<le> y \<Longrightarrow> 0 \<le> round_half_even y"
  by (auto simp: round_half_even_def Let_def)

text \<open>\<open>exponent x\<close> is the binary exponent of a positive \<open>x\<close>.\<close>

lemma exponent_bounds:
  assumes "0 < x"
  shows "2 powi exponent x \<le> x \<and> x < 2 powi (exponent x + 1)"
proof (cases "1 \<le> x")
  case True
  define n where "n = \<lfloor>x\<rfloor>"
  have n: "0 < n" "of_int n \<le> x" "x < of_int n + 1"
    using True unfolding n_def by (simp, linarith, linarith)
  have k: "1 \<le> bitlen n" using n(1) bitlen_ge_iff_power[of 1 n] by simp
  from bitlen_bounds[OF n(1)] have b: "2 ^ nat (bitlen n - 1) \<le> n" "n < 2 ^ nat (bitlen n)"
    by simp_all
  have "(2::rat) powi (bitlen n - 1) = of_int (2 ^ nat (bitlen n - 1))"
    using k by (simp add: power_int_def)
  also have "\<dots> \<le> of_int n" using b(1) by (simp only: of_int_le_iff)
  finally have lo: "(2::rat) powi (bitlen n - 1) \<le> x" using n(2) by simp
  have "n + 1 \<le> 2 ^ nat (bitlen n)" using b(2) by simp
  then have "(of_int (n + 1) :: rat) \<le> of_int (2 ^ nat (bitlen n))" by (simp only: of_int_le_iff)
  also have "\<dots> = 2 powi (bitlen n)" using k by (simp add: power_int_def)
  finally have hi: "x < 2 powi (bitlen n)" using n(3) by simp
  show ?thesis using True lo hi by (simp add: exponent_def n_def)
next
  case False
  define m where "m = \<lceil>1 / x\<rceil> - 1"
  have x1: "1 < 1 / x" using False assms by simp
  then have "2 \<le> \<lceil>1 / x\<rceil>" by (simp add: le_ceiling_iff) 
  then have m: "0 < m" by (simp add: m_def)
  have c: "of_int m < 1 / x" "1 / x \<le> of_int m + 1"
    unfolding m_def by linarith+
  have k: "1 \<le> bitlen m" using m bitlen_ge_iff_power[of 1 m] by simp
  from bitlen_bounds[OF m] have b: "2 ^ nat (bitlen m - 1) \<le> m" "m < 2 ^ nat (bitlen m)"
    by simp_all
  have "m + 1 \<le> 2 ^ nat (bitlen m)" using b(2) by simp
  then have "(of_int (m + 1) :: rat) \<le> of_int (2 ^ nat (bitlen m))"
    by (simp only: of_int_le_iff)
  then have "(of_int m :: rat) + 1 \<le> 2 ^ nat (bitlen m)"
    by (simp only: of_int_add of_int_1 of_int_power of_int_numeral)
  then have "1 / x \<le> 2 ^ nat (bitlen m)" using c(2) by linarith
  then have "1 / 2 ^ nat (bitlen m) \<le> x" using assms by (simp add: field_simps)
  moreover have "(2::rat) powi (- bitlen m) = 1 / 2 ^ nat (bitlen m)"
    using k by (simp add: power_int_def field_simps)
  ultimately have lo: "(2::rat) powi (- bitlen m) \<le> x" by simp
  have "(2::rat) ^ nat (bitlen m - 1) \<le> of_int m" using b(1) by simp
  then have "2 ^ nat (bitlen m - 1) < 1 / x" using c(1) by linarith
  then have "x < 1 / 2 ^ nat (bitlen m - 1)" using assms by (simp add: field_simps)
  moreover have "(2::rat) powi (- bitlen m + 1) = 1 / 2 ^ nat (bitlen m - 1)"
    using k by (simp add: power_int_def field_simps nat_diff_distrib)
  ultimately have hi: "x < 2 powi (- bitlen m + 1)" by simp
  show ?thesis using False lo hi by (simp add: exponent_def m_def)
qed

lemma exponent_le:
  assumes "0 < x" and "x < 2 ^ Suc n"
  shows "exponent x \<le> int n"
proof (cases "1 \<le> x")
  case True
  have "\<lfloor>x\<rfloor> < 2 ^ Suc n" using assms(2) by (simp add: floor_less_iff)
  then have "bitlen \<lfloor>x\<rfloor> \<le> int (Suc n)"
    using bitlen_le_iff_power[of "\<lfloor>x\<rfloor>" "int (Suc n)"] by (simp del: of_nat_Suc)
  then show ?thesis using True by (simp add: exponent_def)
next
  case False
  then show ?thesis using bitlen_nonneg[of "\<lceil>1 / x\<rceil> - 1"] by (simp add: exponent_def)
qed

text \<open>A rounding moves a positive number by at most half a unit in the last place.\<close>

lemma double_error:
  assumes "0 < x" and "exponent x \<le> k" and "- 1022 \<le> k"
  shows "\<bar>double x - x\<bar> \<le> 2 powi (k - 53)"
proof -
  define ulp :: rat where "ulp = 2 powi (max (exponent \<bar>x\<bar>) (- 1022) - 52)"
  have pos: "0 < ulp" by (simp add: ulp_def)
  have d: "double x = of_int (round_half_even (x / ulp)) * ulp"
    using assms(1) by (simp add: double_def ulp_def Let_def)
  have "double x - x = (of_int (round_half_even (x / ulp)) - x / ulp) * ulp"
    using pos by (simp add: d field_simps)
  then have "\<bar>double x - x\<bar> = \<bar>of_int (round_half_even (x / ulp)) - x / ulp\<bar> * ulp"
    using pos by (simp add: abs_mult)
  also have "\<dots> \<le> 1 / 2 * ulp"
    using round_half_even_error[of "x / ulp"] pos by (intro mult_right_mono) simp_all
  also have "ulp \<le> 2 powi (k - 52)"
    unfolding ulp_def using assms by (intro power_int_increasing) simp_all
  also have "1 / 2 * (2::rat) powi (k - 52) = 2 powi (k - 53)"
    by (simp add: power_int_diff)
  finally show ?thesis by simp
qed

lemma double_nonneg: "0 \<le> x \<Longrightarrow> 0 \<le> double x"
  by (auto simp: double_def Let_def
      intro!: mult_nonneg_nonneg round_half_even_nonneg divide_nonneg_nonneg)

text \<open>The two roundings of the percentage move it by less than \<open>2\<^sup>-\<^sup>4\<^sup>5\<close>.\<close>

lemma percentage_error:
  assumes "0 < x" and "x \<le> 1"
  shows "\<bar>double (double x * 100) - 100 * x\<bar> \<le> 1 / 2 ^ 45"
proof -
  define c :: rat where "c = 1 / 2 ^ 53"
  define b :: rat where "b = 1 / 2 ^ 45"
  have c: "0 < c" "c \<le> 1 / 4" "164 * c \<le> b" by (simp_all add: c_def b_def)
  have p53: "(2::rat) powi (int 0 - 53) = c" by (simp add: power_int_minus field_simps c_def)
  have p47: "(2::rat) powi (int 6 - 53) = 64 * c" by (simp add: power_int_minus field_simps c_def)
  have "exponent x \<le> int 0" using assms by (intro exponent_le) simp_all
  then have "\<bar>double x - x\<bar> \<le> 2 powi (int 0 - 53)"
    using assms(1) by (intro double_error) simp_all
  then have e1: "\<bar>double x - x\<bar> \<le> c" unfolding p53 .
  have n: "0 \<le> double x" using assms by (intro double_nonneg) simp
  from e1 have v: "double x - x \<le> c" "x - double x \<le> c"
    unfolding abs_le_iff by simp_all
  show ?thesis
  proof (cases "double x = 0")
    case True
    then have "x \<le> c" using v by simp
    moreover have "\<bar>double (double x * 100) - 100 * x\<bar> = 100 * x"
      using True assms by (simp add: double_def)
    ultimately have "\<bar>double (double x * 100) - 100 * x\<bar> \<le> b" using c by linarith
    then show ?thesis unfolding b_def .
  next
    case False
    let ?y = "double x * 100"
    have y: "0 < ?y" using n False by simp
    have "double x < 32 / 25" using v assms(2) c by linarith
    then have "?y < 2 ^ Suc 6" by simp
    then have "exponent ?y \<le> int 6" using y by (intro exponent_le)
    then have "\<bar>double ?y - ?y\<bar> \<le> 2 powi (int 6 - 53)"
      using y by (intro double_error) simp_all
    then have "\<bar>double ?y - ?y\<bar> \<le> 64 * c" unfolding p47 .
    then have u: "double ?y - ?y \<le> 64 * c" "?y - double ?y \<le> 64 * c"
      unfolding abs_le_iff by simp_all
    have "double ?y - 100 * x \<le> b" "- (double ?y - 100 * x) \<le> b"
      using u v c by linarith+
    then have "\<bar>double ?y - 100 * x\<bar> \<le> b" unfolding abs_le_iff by simp
    then show ?thesis unfolding b_def .
  qed
qed

lemma percentage_close:
  assumes "p \<le> n" and "0 < n"
  shows "\<bar>double (double (of_nat p / of_nat n) * 100) - 100 * of_nat p / of_nat n\<bar>
         \<le> 1 / 2 ^ 45"
proof (cases "p = 0")
  case True
  then show ?thesis by (simp add: double_def)
next
  case False
  have "0 < (of_nat p :: rat) / of_nat n" using False assms by simp
  moreover have "(of_nat p :: rat) / of_nat n \<le> 1" using assms by simp
  ultimately show ?thesis using percentage_error[of "of_nat p / of_nat n"] by simp
qed

lemma presentDays_le: "presentDays st i \<le> totalDays st i"
proof -
  have "filter (\<lambda>r. employeeId r = i \<and> present r) (attendanceRecords st) =
        filter present (filter (\<lambda>r. employeeId r = i) (attendanceRecords st))"
    by simp
  then show ?thesis
    unfolding presentDays_def totalDays_def by (simp only: length_filter_le)
qed

lemma percentageOf_zero: "totalDays st i = 0 \<Longrightarrow> percentageOf st i = 100"
  by (simp add: percentageOf_def attendancePercentage_def totalDays_def)

lemma percentageOf_pos:
  "0 < totalDays st i \<Longrightarrow>
     percentageOf st i =
       double (double (of_nat (presentDays st i) / of_nat (totalDays st i)) * 100)"
  by (simp add: percentageOf_def attendancePercentage_def totalDays_def presentDays_def)

text \<open>What a recomputation stores is the percentage of the specification up to the
  rounding, and is exactly \<open>100\<close> for an employee without records.\<close>

lemma percentageOf_spec: "\<bar>percentageOf st i - spec_attendance st i\<bar> \<le> 1 / 2 ^ 45"
proof (cases "totalDays st i = 0")
  case True
  then show ?thesis by (simp add: percentageOf_zero spec_attendance_def)
next
  case False
  then show ?thesis
    using percentage_close[OF presentDays_le[of st i]]
    by (simp add: percentageOf_pos spec_attendance_def)
qed

section \<open>Recomputation\<close>

lemmas ex_defs = ex_admin_def ex_employee_def ex_record_def ex_store_def ex_input_def

lemmas engine_defs = findById_def updateAttendanceStats_def updateAttendancePercentage_def
  save_def

lemma ex_half:
  "attendancePercentage [ex_record 5 True, ex_record 6 False] = 50"
  by code_simp


lemma find_map_same_id:
  assumes "\<And>e. doc_id (f e) = doc_id e"
  shows "find (\<lambda>e. doc_id e = i) (map f es) = map_option f (find (\<lambda>e. doc_id e = i) es)"
  using assms by (induction es) auto

lemma findById_Some_id: "findById i es = Some e \<Longrightarrow> doc_id e = i"
  unfolding findById_def by (auto simp: find_Some_iff)


lemma doc_id_recomputed: "doc_id (recomputed now st e) = doc_id e"
  by (simp add: recomputed_def)

lemma attendance_recomputed: "attendance (recomputed now st e) = percentageOf st (doc_id e)"
  by (simp add: recomputed_def)

lemma employees_updateAttendanceStats:
  "employees (updateAttendanceStats now eid st) =
     (case findById eid (employees st) of
        None \<Rightarrow> employees st
      | Some this \<Rightarrow>
          map (\<lambda>e. if doc_id e = eid then recomputed now st this else e) (employees st))"
proof (cases "findById eid (employees st)")
  case None
  then show ?thesis by (simp add: updateAttendanceStats_def)
next
  case (Some this)
  then have "doc_id this = eid" by (rule findById_Some_id)
  then show ?thesis
    by (simp add: updateAttendanceStats_def Some updateAttendancePercentage_def save_def
        percentageOf_def recomputed_def)
qed

lemma attendanceRecords_updateAttendanceStats:
  "attendanceRecords (updateAttendanceStats now eid st) = attendanceRecords st"
  by (simp add: updateAttendanceStats_def updateAttendancePercentage_def save_def
      split: option.splits)


lemma findById_updateAttendanceStats:
  "findById i (employees (updateAttendanceStats now eid st)) =
     (case findById i (employees st) of
        None \<Rightarrow> None
      | Some e \<Rightarrow> if i = eid then Some (recomputed now st e) else Some e)"
proof (cases "findById eid (employees st)")
  case None
  then show ?thesis
    by (cases "i = eid") (simp_all add: employees_updateAttendanceStats split: option.splits)
next
  case (Some this)
  have "findById i (map (\<lambda>e. if doc_id e = eid then recomputed now st this else e) (employees st))
        = map_option (\<lambda>e. if doc_id e = eid then recomputed now st this else e)
            (findById i (employees st))"
    unfolding findById_def using findById_Some_id[OF Some]
    by (intro find_map_same_id) (simp add: recomputed_def)
  then show ?thesis
    using Some findById_Some_id[of i "employees st"]
    by (cases "findById i (employees st)") (auto simp: employees_updateAttendanceStats)
qed


text \<open>
  Claim C9. Recalculation is idempotent: for an existing employee, a second
  \<^verbatim>\<open>updateAttendanceStats\<close> right after the first (no attendance write in between) leaves
  the stored attendance that the first one left, and that value is the percentage computed
  from the attendance records alone, whatever was stored before.
\<close>

theorem updateAttendanceStats_idempotent:
  assumes "findById eid (employees st) = Some e"
  shows "map_option attendance
           (findById eid
              (employees (updateAttendanceStats t2 eid (updateAttendanceStats t1 eid st))))
         = map_option attendance (findById eid (employees (updateAttendanceStats t1 eid st)))
       \<and> map_option attendance (findById eid (employees (updateAttendanceStats t1 eid st)))
         = Some (attendancePercentage
                   (filter (\<lambda>r. employeeId r = eid) (attendanceRecords st)))"
  using assms findById_Some_id[OF assms]
  by (simp add: findById_updateAttendanceStats attendance_recomputed doc_id_recomputed
      percentageOf_def attendanceRecords_updateAttendanceStats)

theorem updateAttendanceStats_idempotent_witness:
  "findById ''64b000000000000000000e01'' (employees ex_store)
     = Some (ex_employee ''64b000000000000000000e01'' ''Bob Ray'' 1)
   \<and> map_option attendance
       (findById ''64b000000000000000000e01''
          (employees (updateAttendanceStats 20 ''64b000000000000000000e01''
             (updateAttendanceStats 10 ''64b000000000000000000e01'' ex_store))))
     = Some 50
   \<and> map_option attendance
       (findById ''64b000000000000000000e01''
          (employees (updateAttendanceStats 10 ''64b000000000000000000e01'' ex_store)))
     = Some 50"
  using updateAttendanceStats_idempotent
          [of "''64b000000000000000000e01''" ex_store
              "ex_employee ''64b000000000000000000e01'' ''Bob Ray'' 1" 20 10]
  by (simp add: ex_defs engine_defs ex_half[unfolded ex_record_def])

section \<open>Marking attendance\<close>

lemmas mark_defs = markAttendance_def checkRole_def validateAttendanceInput_def validateDate_def
  AttendanceRecord_create_def castAndValidate_def employeeIdErrors_def dateErrors_def
  notesErrors_def castId_def preSave_def insertOne_def postSave_def failedToMark_def trim_def
  is_space_def

lemma ex_ids:
  "ObjectId ''64b000000000000000000a01'' = Inr ''64b000000000000000000a01''"
  "ObjectId ''64b000000000000000000e01'' = Inr ''64b000000000000000000e01''"
  "ObjectId ''64b000000000000000000e02'' = Inr ''64b000000000000000000e02''"
  "ObjectId ''64b000000000000000000e09'' = Inr ''64b000000000000000000e09''"
  "ObjectId ''64B000000000000000000E01'' = Inr ''64b000000000000000000e01''"
  "ObjectId ''admin123'' = Inl (BSONError ''Argument passed in must be a string of 12 bytes or a string of 24 hex characters or an integer'')"
  "ObjectId ''emp1'' = Inl (BSONError ''Argument passed in must be a string of 12 bytes or a string of 24 hex characters or an integer'')"
  "ObjectId ''12345'' = Inl (BSONError ''Argument passed in must be a string of 12 bytes or a string of 24 hex characters or an integer'')"
  by code_simp+

lemma length_trim: "length (trim s) \<le> length s"
proof -
  have "length (dropWhile is_space (rev (dropWhile is_space s))) \<le> length (rev (dropWhile is_space s))"
    by (rule length_dropWhile_le)
  also have "\<dots> \<le> length s" by (simp add: length_dropWhile_le)
  finally show ?thesis by (simp add: trim_def)
qed

lemma validateAttendanceInput_Nil_iff:
  "validateAttendanceInput now input = [] \<longleftrightarrow>
     validateDate now (AttendanceInput.date input) \<and>
     (\<forall>s. AttendanceInput.notes' input = Some s \<longrightarrow> length s \<le> 500)"
  by (auto simp: validateAttendanceInput_def split: option.splits)

lemma validateDate_iff: "validateDate now d \<longleftrightarrow> (\<exists>t. d = Date t \<and> t \<le> now)"
  by (cases d) (simp_all add: validateDate_def)

text \<open>An input that has passed the resolver's validation has no error under the paths
  \<^verbatim>\<open>date\<close> and \<^verbatim>\<open>notes\<close> of the schema.\<close>

lemma valid_paths:
  assumes "validateAttendanceInput now input = []"
  shows "\<exists>t. AttendanceInput.date input = Date t \<and> t \<le> now \<and>
             dateErrors now (AttendanceInput.date input) = [] \<and>
             notesErrors (map_option trim (AttendanceInput.notes' input)) = []"
proof -
  from assms obtain t where t: "AttendanceInput.date input = Date t" "t \<le> now"
    and n: "\<forall>s. AttendanceInput.notes' input = Some s \<longrightarrow> length s \<le> 500"
    by (auto simp: validateAttendanceInput_Nil_iff validateDate_iff)
  have "\<forall>s. AttendanceInput.notes' input = Some s \<longrightarrow> \<not> 500 < length (trim s)"
    using n length_trim le_trans by (metis not_less)
  then show ?thesis using t
    by (cases "AttendanceInput.notes' input")
       (simp_all add: dateErrors_def notesErrors_def validateDate_def)
qed

lemma castAndValidate_valid:
  assumes "validateAttendanceInput now input = []"
  shows "\<exists>t. AttendanceInput.date input = Date t \<and> t \<le> now \<and>
             castAndValidate now input creator =
               (case ObjectId (AttendanceInput.employeeId input) of
                  Inl e \<Rightarrow>
                    Inl (ValidationFailed
                           [(''employeeId'',
                             castFailed (AttendanceInput.employeeId input) ''employeeId'' @
                             '' because of '' @ quoted ''BSONError'')])
                | Inr i \<Rightarrow>
                    Inr \<lparr>employeeId = i, date = t,
                         present = AttendanceInput.present input,
                         notes' = map_option trim (AttendanceInput.notes' input),
                         createdBy = creator\<rparr>)"
proof -
  from valid_paths[OF assms] obtain t where
    t: "AttendanceInput.date input = Date t" "t \<le> now" and
    e: "dateErrors now (AttendanceInput.date input) = []"
       "notesErrors (map_option trim (AttendanceInput.notes' input)) = []"
    by blast
  show ?thesis
    using t e
    by (cases "ObjectId (AttendanceInput.employeeId input)")
       (simp_all add: castAndValidate_def employeeIdErrors_def Let_def)
qed

lemma AttendanceRecord_create_valid:
  assumes "validateAttendanceInput now input = []"
  shows "\<exists>t. AttendanceInput.date input = Date t \<and> t \<le> now \<and>
     AttendanceRecord_create now input creator st =
       (case ObjectId (AttendanceInput.employeeId input) of
          Inl e \<Rightarrow>
            Inl (ValidationFailed
                   [(''employeeId'',
                     castFailed (AttendanceInput.employeeId input) ''employeeId'' @
                     '' because of '' @ quoted ''BSONError'')])
        | Inr i \<Rightarrow>
            if findById i (employees st) = None then Inl (Error ''Employee not found'')
            else if recordExists st i t then Inl (DuplicateKey ''employeeId_1_date_1'')
            else Inr (updateAttendanceStats now i (inserted t input i creator st)))"
proof -
  from castAndValidate_valid[OF assms, of creator] obtain t where
    t: "AttendanceInput.date input = Date t" "t \<le> now" and
    c: "castAndValidate now input creator =
               (case ObjectId (AttendanceInput.employeeId input) of
                  Inl e \<Rightarrow>
                    Inl (ValidationFailed
                           [(''employeeId'',
                             castFailed (AttendanceInput.employeeId input) ''employeeId'' @
                             '' because of '' @ quoted ''BSONError'')])
                | Inr i \<Rightarrow>
                    Inr \<lparr>employeeId = i, date = t,
                         present = AttendanceInput.present input,
                         notes' = map_option trim (AttendanceInput.notes' input),
                         createdBy = creator\<rparr>)" by blast
  show ?thesis
    using t
    by (cases "ObjectId (AttendanceInput.employeeId input)")
       (auto simp: AttendanceRecord_create_def c preSave_def insertOne_def postSave_def
          recordExists_def inserted_def split: option.splits)
qed

lemma markAttendance_authorized:
  assumes "user_role u = ADMIN"
  shows "markAttendance now (Some u) input st =
     (if validateAttendanceInput now input \<noteq> []
      then (st, Inr \<lparr>success = False, message = None, employee = None,
                     errors = Some (validateAttendanceInput now input)\<rparr>)
      else (case ObjectId (user_id u) of
              Inl e \<Rightarrow> (st, Inr (failedToMark e))
            | Inr creator \<Rightarrow>
                (case AttendanceRecord_create now input creator st of
                   Inl e \<Rightarrow> (st, Inr (failedToMark e))
                 | Inr st' \<Rightarrow>
                     (case castId (AttendanceInput.employeeId input) of
                        Inl e \<Rightarrow> (st', Inr (failedToMark e))
                      | Inr i \<Rightarrow>
                          (updateAttendanceStats now i st',
                           Inr \<lparr>success = True, message = Some ''Attendance marked successfully'',
                                employee = None, errors = None\<rparr>)))))"
  using assms by (simp add: markAttendance_def checkRole_def Let_def)

lemma markAttendance_unauthorized:
  assumes "\<not> (\<exists>u. user = Some u \<and> user_role u = ADMIN)"
  shows "markAttendance now user input st =
     (st, case user of None \<Rightarrow> Inl (GraphQLError ''Not authenticated'')
          | Some u \<Rightarrow> Inr (failedToMark (GraphQLError ''Not authorized'')))"
  using assms by (auto simp: markAttendance_def checkRole_def split: option.splits)

lemma success_failedToMark: "\<not> success (failedToMark e)"
  by (simp add: failedToMark_def)

text \<open>What a call by an administrator with a valid input answers, once the two
  conversions have succeeded.\<close>

lemma markAttendance_converted:
  assumes "user_role u = ADMIN" and "validateAttendanceInput now input = []"
    and "ObjectId (user_id u) = Inr c" and "ObjectId (AttendanceInput.employeeId input) = Inr i"
  shows "\<exists>t. AttendanceInput.date input = Date t \<and> t \<le> now \<and>
     markAttendance now (Some u) input st =
       (if findById i (employees st) = None
        then (st, Inr (failedToMark (Error ''Employee not found'')))
        else if recordExists st i t
        then (st, Inr (failedToMark (DuplicateKey ''employeeId_1_date_1'')))
        else (updateAttendanceStats now i
                (updateAttendanceStats now i (inserted t input i c st)),
              Inr \<lparr>success = True, message = Some ''Attendance marked successfully'',
                   employee = None, errors = None\<rparr>))"
proof -
  from AttendanceRecord_create_valid[OF assms(2), of c st] obtain t where
    t: "AttendanceInput.date input = Date t" "t \<le> now" and
    r: "AttendanceRecord_create now input c st =
         (if findById i (employees st) = None then Inl (Error ''Employee not found'')
          else if recordExists st i t then Inl (DuplicateKey ''employeeId_1_date_1'')
          else Inr (updateAttendanceStats now i (inserted t input i c st)))"
    by (auto simp: assms(4))
  show ?thesis
    using t assms(2)
    by (simp add: markAttendance_authorized[OF assms(1)] assms(3,4) r castId_def)
qed

lemma markAttendance_outcome:
  "(fst (markAttendance now user input st) = st \<and>
      (\<forall>r. snd (markAttendance now user input st) = Inr r \<longrightarrow> \<not> success r))
   \<or> (\<exists>u t i c. user = Some u \<and> user_role u = ADMIN \<and>
          validateAttendanceInput now input = [] \<and>
          AttendanceInput.date input = Date t \<and> t \<le> now \<and>
          ObjectId (user_id u) = Inr c \<and>
          ObjectId (AttendanceInput.employeeId input) = Inr i \<and>
          findById i (employees st) \<noteq> None \<and>
          \<not> recordExists st i t \<and>
          markAttendance now user input st =
            (updateAttendanceStats now i
               (updateAttendanceStats now i (inserted t input i c st)),
             Inr \<lparr>success = True, message = Some ''Attendance marked successfully'',
                  employee = None, errors = None\<rparr>))"
proof (cases "\<exists>u. user = Some u \<and> user_role u = ADMIN")
  case False
  then show ?thesis
    by (auto simp: markAttendance_unauthorized success_failedToMark split: option.splits)
next
  case True
  then obtain u where u: "user = Some u" "user_role u = ADMIN" by blast
  show ?thesis
  proof (cases "validateAttendanceInput now input = []")
    case False
    then show ?thesis using u by (simp add: markAttendance_authorized)
  next
    case valid: True
    show ?thesis
    proof (cases "ObjectId (user_id u)")
      case (Inl e)
      then show ?thesis
        using u valid by (simp add: markAttendance_authorized success_failedToMark)
    next
      case c: (Inr c)
      show ?thesis
      proof (cases "ObjectId (AttendanceInput.employeeId input)")
        case (Inl e)
        then show ?thesis
          using u valid c AttendanceRecord_create_valid[OF valid, of c st]
          by (auto simp: markAttendance_authorized success_failedToMark)
      next
        case i: (Inr i)
        from markAttendance_converted[OF u(2) valid c i, of st] obtain t where
          t: "AttendanceInput.date input = Date t" "t \<le> now" and
          m: "markAttendance now (Some u) input st =
               (if findById i (employees st) = None
                then (st, Inr (failedToMark (Error ''Employee not found'')))
                else if recordExists st i t
                then (st, Inr (failedToMark (DuplicateKey ''employeeId_1_date_1'')))
                else (updateAttendanceStats now i
                        (updateAttendanceStats now i (inserted t input i c st)),
                      Inr \<lparr>success = True, message = Some ''Attendance marked successfully'',
                           employee = None, errors = None\<rparr>))"
          by blast
        show ?thesis
        proof (cases "findById i (employees st) = None \<or> recordExists st i t")
          case True
          then show ?thesis using u m by (auto simp: success_failedToMark)
        next
          case False
          then have f: "findById i (employees st) \<noteq> None" "\<not> recordExists st i t"
            by simp_all
          have "markAttendance now user input st =
                (updateAttendanceStats now i
                   (updateAttendanceStats now i (inserted t input i c st)),
                 Inr \<lparr>success = True, message = Some ''Attendance marked successfully'',
                      employee = None, errors = None\<rparr>)"
            unfolding u(1) m by (simp only: f if_False)
          then show ?thesis using u valid t c i f by blast
        qed
      qed
    qed
  qed
qed




lemma presentDays_cong:
  "attendanceRecords st' = attendanceRecords st \<Longrightarrow> presentDays st' i = presentDays st i"
  by (simp add: presentDays_def)






text \<open>
  Claim C2, as stated, fails: when a record for \<open>(employeeId, date)\<close> exists and the
  caller is the administrator of the README, whose id \<^verbatim>\<open>admin123\<close> is no object id, the
  conversion of the caller's id throws before the record is created, and the response
  carries the error of the conversion, not the duplicate-key error. The input is valid and
  names an existing employee.
\<close>

theorem markAttendance_duplicate_counterexample:
  "ObjectId ''64b000000000000000000e01'' = Inr ''64b000000000000000000e01''
   \<and> recordExists ex_store ''64b000000000000000000e01'' 5
   \<and> validateAttendanceInput 10 (ex_input ''64b000000000000000000e01'' (Date 5) None) = []
   \<and> findById ''64b000000000000000000e01'' (employees ex_store) \<noteq> None
   \<and> markAttendance 10 (Some ex_admin123)
        (ex_input ''64b000000000000000000e01'' (Date 5) None) ex_store
     = (ex_store,
        Inr (failedToMark (BSONError ''Argument passed in must be a string of 12 bytes or a string of 24 hex characters or an integer'')))
   \<and> snd (markAttendance 10 (Some ex_admin123)
        (ex_input ''64b000000000000000000e01'' (Date 5) None) ex_store)
     \<noteq> Inr (failedToMark (DuplicateKey ''employeeId_1_date_1''))"
  by (simp add: ex_defs ex_admin123_def mark_defs recordExists_def findById_def ex_ids)

text \<open>
  Claim C2, amended. Whenever a record exists for the employee that \<^verbatim>\<open>employeeId\<close>
  converts to and for the date, the call does not succeed and leaves the whole store,
  hence the stored attendance, as it was; when the caller is an \<^verbatim>\<open>ADMIN\<close> whose id
  converts to an object id, the input passes validation and the employee exists, the
  response is the failure payload carrying the duplicate-key error of the unique index
  (under the code \<^verbatim>\<open>INTERNAL_SERVER_ERROR\<close>).
\<close>

theorem markAttendance_duplicate:
  assumes "AttendanceInput.date input = Date t"
    and "ObjectId (AttendanceInput.employeeId input) = Inr i"
    and "recordExists st i t"
  shows "fst (markAttendance now user input st) = st \<and>
         (\<forall>r. snd (markAttendance now user input st) = Inr r \<longrightarrow> \<not> success r) \<and>
         (user = Some u \<and> user_role u = ADMIN \<and> ObjectId (user_id u) = Inr c \<and>
          validateAttendanceInput now input = [] \<and> findById i (employees st) \<noteq> None \<longrightarrow>
            snd (markAttendance now user input st) =
              Inr (failedToMark (DuplicateKey ''employeeId_1_date_1'')))"
proof -
  have 1: "fst (markAttendance now user input st) = st \<and>
         (\<forall>r. snd (markAttendance now user input st) = Inr r \<longrightarrow> \<not> success r)"
    using markAttendance_outcome[of now user input st] assms by auto
  have 2: "snd (markAttendance now user input st) =
              Inr (failedToMark (DuplicateKey ''employeeId_1_date_1''))"
    if "user = Some u" "user_role u = ADMIN" "ObjectId (user_id u) = Inr c"
       "validateAttendanceInput now input = []" "findById i (employees st) \<noteq> None"
    using markAttendance_converted[OF that(2) that(4) that(3) assms(2), of st] that assms
    by auto
  show ?thesis using 1 2 by blast
qed

theorem markAttendance_duplicate_witness:
  "AttendanceInput.date (ex_input ''64b000000000000000000e01'' (Date 5) None) = Date 5
   \<and> ObjectId ''64b000000000000000000e01'' = Inr ''64b000000000000000000e01''
   \<and> recordExists ex_store ''64b000000000000000000e01'' 5
   \<and> ObjectId (user_id ex_admin) = Inr ''64b000000000000000000a01''
   \<and> validateAttendanceInput 10 (ex_input ''64b000000000000000000e01'' (Date 5) None) = []
   \<and> findById ''64b000000000000000000e01'' (employees ex_store) \<noteq> None
   \<and> markAttendance 10 (Some ex_admin) (ex_input ''64b000000000000000000e01'' (Date 5) None) ex_store
     = (ex_store, Inr (failedToMark (DuplicateKey ''employeeId_1_date_1'')))"
  using markAttendance_duplicate
          [of "ex_input ''64b000000000000000000e01'' (Date 5) None" 5
              "''64b000000000000000000e01''" ex_store 10 "Some ex_admin" ex_admin
              "''64b000000000000000000a01''"]
  by (simp add: ex_defs recordExists_def validateAttendanceInput_def validateDate_def
      findById_def prod_eq_iff ex_ids)

text \<open>
  Claim C3, as stated, fails: a date in the future is answered by the validation gate with
  the field error \<^verbatim>\<open>INVALID_DATE\<close>; the error \<^verbatim>\<open>Future dates are not allowed\<close> of the
  \<^verbatim>\<open>pre('save')\<close> hook is not what the caller receives.
\<close>

theorem markAttendance_future_date_counterexample:
  "markAttendance 10 (Some ex_admin) (ex_input ''64b000000000000000000e01'' (Date 11) None) ex_store
     = (ex_store,
        Inr (invalidInput [\<lparr>field = Some ''date'',
                            message = ''Invalid date or future date not allowed'',
                            code = ''INVALID_DATE''\<rparr>]))
   \<and> snd (markAttendance 10 (Some ex_admin)
             (ex_input ''64b000000000000000000e01'' (Date 11) None) ex_store)
     \<noteq> Inr (failedToMark (Error ''Future dates are not allowed''))"
  by (simp add: ex_defs mark_defs invalidInput_def)

text \<open>
  Claim C3, amended. Whenever the date is later than the current time, the call does not
  succeed and leaves the store unchanged (no record persisted, no employee field
  modified); for an \<^verbatim>\<open>ADMIN\<close> caller the response lists validation errors, the first of
  which is the \<^verbatim>\<open>INVALID_DATE\<close> error of the field \<^verbatim>\<open>date\<close>.
\<close>

theorem markAttendance_future_date:
  assumes "AttendanceInput.date input = Date t" and "now < t"
  shows "fst (markAttendance now user input st) = st \<and>
         (\<forall>r. snd (markAttendance now user input st) = Inr r \<longrightarrow> \<not> success r) \<and>
         (user = Some u \<and> user_role u = ADMIN \<longrightarrow>
            (\<exists>more. snd (markAttendance now user input st) =
               Inr \<lparr>success = False, message = None, employee = None,
                    errors = Some (\<lparr>field = Some ''date'',
                                    message = ''Invalid date or future date not allowed'',
                                    code = ''INVALID_DATE''\<rparr> # more)\<rparr>))"
proof -
  have 1: "fst (markAttendance now user input st) = st \<and>
         (\<forall>r. snd (markAttendance now user input st) = Inr r \<longrightarrow> \<not> success r)"
    using markAttendance_outcome[of now user input st] assms by auto
  have v: "\<exists>more. validateAttendanceInput now input =
             \<lparr>field = Some ''date'', message = ''Invalid date or future date not allowed'',
              code = ''INVALID_DATE''\<rparr> # more"
    using assms by (simp add: validateAttendanceInput_def validateDate_def)
  have 2: "\<exists>more. snd (markAttendance now user input st) =
               Inr \<lparr>success = False, message = None, employee = None,
                    errors = Some (\<lparr>field = Some ''date'',
                                    message = ''Invalid date or future date not allowed'',
                                    code = ''INVALID_DATE''\<rparr> # more)\<rparr>"
    if "user = Some u" "user_role u = ADMIN"
    using v that by (auto simp: markAttendance_authorized)
  show ?thesis using 1 2 by blast
qed

theorem markAttendance_future_date_witness:
  "AttendanceInput.date (ex_input ''64b000000000000000000e01'' (Date 11) None) = Date 11
   \<and> (10::time) < 11
   \<and> fst (markAttendance 10 (Some ex_admin)
             (ex_input ''64b000000000000000000e01'' (Date 11) None) ex_store) = ex_store
   \<and> (\<exists>more. snd (markAttendance 10 (Some ex_admin)
                    (ex_input ''64b000000000000000000e01'' (Date 11) None) ex_store)
        = Inr (invalidInput (\<lparr>field = Some ''date'',
                               message = ''Invalid date or future date not allowed'',
                               code = ''INVALID_DATE''\<rparr> # more)))"
  using markAttendance_future_date
          [of "ex_input ''64b000000000000000000e01'' (Date 11) None" 11 10 "Some ex_admin"
              ex_store ex_admin]
  by (simp add: ex_input_def ex_admin_def invalidInput_def)

text \<open>
  Claim C4, as stated, fails: the \<^verbatim>\<open>employeeId\<close> \<^verbatim>\<open>12345\<close> identifies no employee, and
  the call, valid otherwise and made by an administrator, is answered with the validation
  error of the record, whose path \<^verbatim>\<open>employeeId\<close> does not cast to an object id, and not
  with \<^verbatim>\<open>Employee not found\<close>: the \<^verbatim>\<open>pre('save')\<close> hook is not reached.
\<close>

theorem markAttendance_unknown_employee_counterexample:
  "\<not> identifiesEmployee ex_store ''12345''
   \<and> validateAttendanceInput 10 (ex_input ''12345'' (Date 5) None) = []
   \<and> ObjectId (user_id ex_admin) = Inr ''64b000000000000000000a01''
   \<and> markAttendance 10 (Some ex_admin) (ex_input ''12345'' (Date 5) None) ex_store
     = (ex_store,
        Inr (failedToMark
               (ValidationFailed
                  [(''employeeId'',
                    castFailed ''12345'' ''employeeId'' @ '' because of '' @
                    quoted ''BSONError'')])))
   \<and> snd (markAttendance 10 (Some ex_admin) (ex_input ''12345'' (Date 5) None) ex_store)
     \<noteq> Inr (failedToMark (Error ''Employee not found''))"
  by (simp add: ex_defs mark_defs identifiesEmployee_def ex_ids castFailed_def quoted_def)

text \<open>
  Claim C4, amended. Whenever \<^verbatim>\<open>employeeId\<close> identifies no stored employee, the call does
  not succeed and leaves the store unchanged (no record persisted); when the caller is an
  \<^verbatim>\<open>ADMIN\<close> whose id converts to an object id, the input passes validation and
  \<^verbatim>\<open>employeeId\<close> converts to an object id, the response is the failure payload carrying
  \<^verbatim>\<open>Employee not found\<close> (under the code \<^verbatim>\<open>INTERNAL_SERVER_ERROR\<close>).
\<close>

theorem markAttendance_unknown_employee:
  assumes "\<not> identifiesEmployee st (AttendanceInput.employeeId input)"
  shows "fst (markAttendance now user input st) = st \<and>
         (\<forall>r. snd (markAttendance now user input st) = Inr r \<longrightarrow> \<not> success r) \<and>
         (user = Some u \<and> user_role u = ADMIN \<and> ObjectId (user_id u) = Inr c \<and>
          validateAttendanceInput now input = [] \<and>
          ObjectId (AttendanceInput.employeeId input) = Inr i \<longrightarrow>
            snd (markAttendance now user input st) =
              Inr (failedToMark (Error ''Employee not found'')))"
proof -
  have 1: "fst (markAttendance now user input st) = st \<and>
         (\<forall>r. snd (markAttendance now user input st) = Inr r \<longrightarrow> \<not> success r)"
    using markAttendance_outcome[of now user input st] assms
    by (auto simp: identifiesEmployee_def)
  have 2: "snd (markAttendance now user input st) =
              Inr (failedToMark (Error ''Employee not found''))"
    if "user = Some u" "user_role u = ADMIN" "ObjectId (user_id u) = Inr c"
       "validateAttendanceInput now input = []"
       "ObjectId (AttendanceInput.employeeId input) = Inr i"
    using markAttendance_converted[OF that(2) that(4) that(3) that(5), of st] that assms
    by (auto simp: identifiesEmployee_def)
  show ?thesis using 1 2 by blast
qed

theorem markAttendance_unknown_employee_witness:
  "\<not> identifiesEmployee ex_store ''64b000000000000000000e09''
   \<and> ObjectId (user_id ex_admin) = Inr ''64b000000000000000000a01''
   \<and> validateAttendanceInput 10 (ex_input ''64b000000000000000000e09'' (Date 5) None) = []
   \<and> ObjectId ''64b000000000000000000e09'' = Inr ''64b000000000000000000e09''
   \<and> markAttendance 10 (Some ex_admin) (ex_input ''64b000000000000000000e09'' (Date 5) None) ex_store
     = (ex_store, Inr (failedToMark (Error ''Employee not found'')))"
  using markAttendance_unknown_employee
          [of ex_store "ex_input ''64b000000000000000000e09'' (Date 5) None" 10
              "Some ex_admin" ex_admin "''64b000000000000000000a01''"
              "''64b000000000000000000e09''"]
  by (simp add: ex_defs validateAttendanceInput_def validateDate_def findById_def prod_eq_iff
      identifiesEmployee_def ex_ids)

section \<open>Listing employees\<close>

lemmas query_defs = employees_query_def set_name_def set_class_def set_minAge_def set_maxAge_def
  set_minAttendance_def set_maxAttendance_def set_subjects_def set_role_def

lemma Query_employees_result:
  assumes "Query_employees regex order user flt srt page_arg pageSize_arg st = Inr res"
  shows "res =
     (let page = (case page_arg of None \<Rightarrow> 1 | Some p \<Rightarrow> p);
          pageSize = (case pageSize_arg of None \<Rightarrow> 10 | Some n \<Rightarrow> n);
          q = employees_query flt;
          hits = order (employees_sortObj srt) (filter (matches regex q) (employees st));
          rest = drop (nat ((page - 1) * pageSize)) hits;
          count = length (filter (matches regex q) (employees st));
          pages = Math_ceil (divide_count count pageSize)
      in \<lparr>edges = toGraphQLEmployees (if pageSize = 0 then rest else take (nat \<bar>pageSize\<bar>) rest),
          pageInfo = \<lparr>hasNextPage = less_than page pages, hasPreviousPage = page > 1,
                      totalPages = pages, totalCount = count, currentPage = page\<rparr>\<rparr>)"
  using assms
  by (auto simp: Query_employees_def Employee_find_def countDocuments_def Let_def
      split: option.splits sum.splits if_splits)

lemma staff_hits:
  "filter (matches ex_regex (employees_query (Some (ex_filter\<lparr>minAge := Some 20, maxAge := Some 30\<rparr>))))
     (employees ex_staff) = employees ex_staff"
  by (simp add: ex_staff_def ex_employee_def matches_def query_defs ex_filter_def
      empty_query_def spread_def in_range_def)

text \<open>
  Claim C6. For a 1-indexed page \<open>p\<close> and a page size \<open>s \<ge> 1\<close>, a returned page holds the
  matching documents after skipping \<open>(p - 1) \<times> s\<close> of them (at most \<open>s\<close>), and its page
  information has \<open>totalCount\<close> the number of matching documents,
  \<open>totalPages = \<lceil>totalCount / s\<rceil>\<close>, \<open>hasNextPage = (p < totalPages)\<close>,
  \<open>hasPreviousPage = (p > 1)\<close> and \<open>currentPage = p\<close>. The witness is the example of the
  specification: page 2 of size 10 over 25 matches.
\<close>

theorem Query_employees_pagination:
  assumes "Query_employees regex order user flt srt (Some p) (Some s) st = Inr res"
    and "1 \<le> p" and "1 \<le> s"
  shows "edges res =
           toGraphQLEmployees
             (take (nat s)
                (drop (nat ((p - 1) * s))
                   (order (employees_sortObj srt)
                      (filter (matches regex (employees_query flt)) (employees st)))))
       \<and> totalCount (pageInfo res)
           = length (filter (matches regex (employees_query flt)) (employees st))
       \<and> totalPages (pageInfo res)
           = Num (of_int \<lceil>(of_nat (totalCount (pageInfo res)) :: rat) / of_int s\<rceil>)
       \<and> hasNextPage (pageInfo res)
           = (p < \<lceil>(of_nat (totalCount (pageInfo res)) :: rat) / of_int s\<rceil>)
       \<and> hasPreviousPage (pageInfo res) = (1 < p)
       \<and> currentPage (pageInfo res) = p"
  using Query_employees_result[OF assms(1)] assms(2,3)
  by (simp add: Let_def divide_count_def Math_ceil_def less_than_def)

theorem Query_employees_pagination_witness:
  "\<exists>res. Query_employees ex_regex ex_order (Some ex_admin)
            (Some (ex_filter\<lparr>minAge := Some 20, maxAge := Some 30\<rparr>)) None (Some 2) (Some 10)
            ex_staff = Inr res
        \<and> (1::int) \<le> 2 \<and> (1::int) \<le> 10
        \<and> map doc_id (edges res) = map ex_key [10..<20]
        \<and> pageInfo res =
            \<lparr>hasNextPage = True, hasPreviousPage = True, totalPages = Num 3, totalCount = 25,
             currentPage = 2\<rparr>"
proof -
  let ?flt = "Some (ex_filter\<lparr>minAge := Some 20, maxAge := Some 30\<rparr>)"
  let ?res = "\<lparr>edges = toGraphQLEmployees (take 10 (drop 10 (employees ex_staff))),
               pageInfo = \<lparr>hasNextPage = True, hasPreviousPage = True, totalPages = Num 3,
                           totalCount = 25, currentPage = 2\<rparr>\<rparr>"
  have n: "length (employees ex_staff) = 25" by (simp add: ex_staff_def)
  have c: "\<lceil>(5::rat) / 2\<rceil> = 3" by (rule ceiling_unique) simp_all
  have r: "Query_employees ex_regex ex_order (Some ex_admin) ?flt None (Some 2) (Some 10) ex_staff
           = Inr ?res"
    by (simp add: Query_employees_def checkRole_def ex_admin_def countDocuments_def
        Employee_find_def staff_hits n ex_order_def divide_count_def Math_ceil_def less_than_def c)
  have e: "map doc_id (edges ?res) = map ex_key [10..<20]"
    by (simp add: toGraphQLEmployees_def ex_staff_def ex_employee_def drop_map take_map o_def
        Employee.defs)
  from Query_employees_pagination[OF r] r e show ?thesis
    by (intro exI[of _ ?res]) simp
qed

text \<open>
  Claim C7 fails on the code by a slip: the sort key is the whole lower-cased name of the
  enumeration value, suffix included, so \<^verbatim>\<open>NAME_ASC\<close> sorts by the key \<^verbatim>\<open>name_asc\<close>,
  which is no path of an employee document; the same holds for every value of the schema
  and of the TypeScript enumeration. Only the default, \<^verbatim>\<open>createdAt\<close> descending, is as
  claimed.
\<close>

theorem employees_sortObj_key:
  "employees_sortObj (Some ''NAME_ASC'') = (''name_asc'', 1)
   \<and> ''name_asc'' \<notin> set Employee_paths
   \<and> list_all (\<lambda>s. fst (employees_sortObj (Some s)) \<notin> set Employee_paths)
        (EmployeeSort_schema @ EmployeeSort_enum)
   \<and> employees_sortObj None = (''createdAt'', -1)"
  by code_simp

lemma q_name_stages [simp]:
  "q_name (set_name f q) = (case f_name f of None \<Rightarrow> q_name q | Some n \<Rightarrow> if n \<noteq> [] then Some (n, ''i'') else q_name q)"
  "q_name (set_class f q) = q_name q" "q_name (set_minAge f q) = q_name q"
  "q_name (set_maxAge f q) = q_name q" "q_name (set_minAttendance f q) = q_name q"
  "q_name (set_maxAttendance f q) = q_name q" "q_name (set_subjects f q) = q_name q"
  "q_name (set_role f q) = q_name q"
  by (simp_all add: query_defs split: option.splits)

lemma q_class_stages [simp]:
  "q_class (set_class f q) = (case f_class f of None \<Rightarrow> q_class q | Some c \<Rightarrow> if c \<noteq> [] then Some c else q_class q)"
  "q_class (set_name f q) = q_class q" "q_class (set_minAge f q) = q_class q"
  "q_class (set_maxAge f q) = q_class q" "q_class (set_minAttendance f q) = q_class q"
  "q_class (set_maxAttendance f q) = q_class q" "q_class (set_subjects f q) = q_class q"
  "q_class (set_role f q) = q_class q"
  by (simp_all add: query_defs split: option.splits)

lemma q_age_stages [simp]:
  "q_age (set_minAge f q) = (case minAge f of None \<Rightarrow> q_age q | Some a \<Rightarrow> if a \<noteq> 0 then Some \<lparr>gte = Some (of_int a), lte = None\<rparr> else q_age q)"
  "q_age (set_maxAge f q) = (case maxAge f of None \<Rightarrow> q_age q | Some b \<Rightarrow> if b \<noteq> 0 then Some ((spread (q_age q))\<lparr>lte := Some (of_int b)\<rparr>) else q_age q)"
  "q_age (set_name f q) = q_age q" "q_age (set_class f q) = q_age q"
  "q_age (set_minAttendance f q) = q_age q"
  "q_age (set_maxAttendance f q) = q_age q" "q_age (set_subjects f q) = q_age q"
  "q_age (set_role f q) = q_age q"
  by (simp_all add: query_defs split: option.splits)

lemma q_attendance_stages [simp]:
  "q_attendance (set_minAttendance f q) = (case minAttendance f of None \<Rightarrow> q_attendance q | Some a \<Rightarrow> if a \<noteq> 0 then Some \<lparr>gte = Some a, lte = None\<rparr> else q_attendance q)"
  "q_attendance (set_maxAttendance f q) = (case maxAttendance f of None \<Rightarrow> q_attendance q | Some b \<Rightarrow> if b \<noteq> 0 then Some ((spread (q_attendance q))\<lparr>lte := Some b\<rparr>) else q_attendance q)"
  "q_attendance (set_name f q) = q_attendance q" "q_attendance (set_class f q) = q_attendance q"
  "q_attendance (set_minAge f q) = q_attendance q"
  "q_attendance (set_maxAge f q) = q_attendance q" "q_attendance (set_subjects f q) = q_attendance q"
  "q_attendance (set_role f q) = q_attendance q"
  by (simp_all add: query_defs split: option.splits)

lemma q_subjects_stages [simp]:
  "q_subjects (set_subjects f q) = (case f_subjects f of None \<Rightarrow> q_subjects q | Some ss \<Rightarrow> if ss \<noteq> [] then Some ss else q_subjects q)"
  "q_subjects (set_name f q) = q_subjects q" "q_subjects (set_class f q) = q_subjects q"
  "q_subjects (set_minAge f q) = q_subjects q"
  "q_subjects (set_maxAge f q) = q_subjects q" "q_subjects (set_minAttendance f q) = q_subjects q"
  "q_subjects (set_maxAttendance f q) = q_subjects q"
  "q_subjects (set_role f q) = q_subjects q"
  by (simp_all add: query_defs split: option.splits)

lemma q_role_stages [simp]:
  "q_role (set_role f q) = (case f_role f of None \<Rightarrow> q_role q | Some r \<Rightarrow> Some r)"
  "q_role (set_name f q) = q_role q" "q_role (set_class f q) = q_role q"
  "q_role (set_minAge f q) = q_role q"
  "q_role (set_maxAge f q) = q_role q" "q_role (set_minAttendance f q) = q_role q"
  "q_role (set_maxAttendance f q) = q_role q"
  "q_role (set_subjects f q) = q_role q"
  by (simp_all add: query_defs split: option.splits)

text \<open>What the query built from a filter asks of a document: each field constrains it only
  when its value is truthy.\<close>

lemma employees_query_matches:
  "matches regex (employees_query (Some f)) e \<longleftrightarrow>
     (\<forall>n. f_name f = Some n \<and> n \<noteq> [] \<longrightarrow> regex n ''i'' (name e)) \<and>
     (\<forall>c. f_class f = Some c \<and> c \<noteq> [] \<longrightarrow> class_name e = c) \<and>
     (\<forall>a. minAge f = Some a \<and> a \<noteq> 0 \<longrightarrow> a \<le> age e) \<and>
     (\<forall>b. maxAge f = Some b \<and> b \<noteq> 0 \<longrightarrow> age e \<le> b) \<and>
     (\<forall>a. minAttendance f = Some a \<and> a \<noteq> 0 \<longrightarrow> a \<le> attendance e) \<and>
     (\<forall>b. maxAttendance f = Some b \<and> b \<noteq> 0 \<longrightarrow> attendance e \<le> b) \<and>
     (\<forall>ss. f_subjects f = Some ss \<longrightarrow> set ss \<subseteq> set (subjects e)) \<and>
     (\<forall>r. f_role f = Some r \<longrightarrow> role e = r)"
proof -
  have n: "(case q_name (employees_query (Some f)) of None \<Rightarrow> True
            | Some (pat, opts) \<Rightarrow> regex pat opts (name e))
           \<longleftrightarrow> (\<forall>n. f_name f = Some n \<and> n \<noteq> [] \<longrightarrow> regex n ''i'' (name e))"
    by (simp add: employees_query_def empty_query_def split: option.splits)
  have c: "(case q_class (employees_query (Some f)) of None \<Rightarrow> True | Some c \<Rightarrow> class_name e = c)
           \<longleftrightarrow> (\<forall>c. f_class f = Some c \<and> c \<noteq> [] \<longrightarrow> class_name e = c)"
    by (simp add: employees_query_def empty_query_def split: option.splits)
  have a: "(case q_age (employees_query (Some f)) of None \<Rightarrow> True
            | Some r \<Rightarrow> in_range r (of_int (age e)))
           \<longleftrightarrow> (\<forall>a. minAge f = Some a \<and> a \<noteq> 0 \<longrightarrow> a \<le> age e) \<and>
               (\<forall>b. maxAge f = Some b \<and> b \<noteq> 0 \<longrightarrow> age e \<le> b)"
    by (cases "minAge f"; cases "maxAge f")
       (auto simp: employees_query_def empty_query_def spread_def in_range_def)
  have t: "(case q_attendance (employees_query (Some f)) of None \<Rightarrow> True
            | Some r \<Rightarrow> in_range r (attendance e))
           \<longleftrightarrow> (\<forall>a. minAttendance f = Some a \<and> a \<noteq> 0 \<longrightarrow> a \<le> attendance e) \<and>
               (\<forall>b. maxAttendance f = Some b \<and> b \<noteq> 0 \<longrightarrow> attendance e \<le> b)"
    by (cases "minAttendance f"; cases "maxAttendance f")
       (auto simp: employees_query_def empty_query_def spread_def in_range_def)
  have s: "(case q_subjects (employees_query (Some f)) of None \<Rightarrow> True
            | Some ss \<Rightarrow> set ss \<subseteq> set (subjects e))
           \<longleftrightarrow> (\<forall>ss. f_subjects f = Some ss \<longrightarrow> set ss \<subseteq> set (subjects e))"
    by (cases "f_subjects f") (auto simp: employees_query_def empty_query_def)
  have r: "(case q_role (employees_query (Some f)) of None \<Rightarrow> True | Some r \<Rightarrow> role e = r)
           \<longleftrightarrow> (\<forall>r. f_role f = Some r \<longrightarrow> role e = r)"
    by (cases "f_role f") (auto simp: employees_query_def empty_query_def)
  show ?thesis
    unfolding matches_def n c a t s r by blast
qed

text \<open>
  Claim C8 fails on the code by a slip: a supplied \<^verbatim>\<open>maxAttendance\<close> of \<open>0\<close> is dropped by
  the truthiness test, the query stays empty, and both employees of the example store,
  whose attendance is \<open>100\<close>, match.
\<close>

theorem employees_query_drops_zero:
  "employees_query (Some (ex_filter\<lparr>maxAttendance := Some 0\<rparr>)) = empty_query
   \<and> map attendance (employees ex_store) = [100, 100]
   \<and> filter (matches ex_regex (employees_query (Some (ex_filter\<lparr>maxAttendance := Some 0\<rparr>))))
        (employees ex_store) = employees ex_store"
  by (simp add: query_defs ex_filter_def empty_query_def matches_def ex_store_def
      ex_employee_def)

section \<open>Loading through the batch loaders\<close>

lemma mapObjectId_canonical: "\<forall>i \<in> set ids. ObjectId i = Inr i \<Longrightarrow> mapObjectId ids = Inr ids"
  by (induction ids) simp_all








lemma set_enqueue: "set (enqueue cached ks) = set ks - set cached"
  by (induction ks arbitrary: cached) auto

lemma distinct_enqueue: "distinct (enqueue cached ks)"
  by (induction ks arbitrary: cached) (auto simp: set_enqueue)

lemma enqueue_distinct: "distinct ks \<Longrightarrow> set ks \<inter> set cached = {} \<Longrightarrow> enqueue cached ks = ks"
  by (induction ks arbitrary: cached) auto

lemma length_enqueue: "length (enqueue [] ks) = length (remdups ks)"
proof -
  have "length (enqueue [] ks) = card (set (enqueue [] ks))"
    by (simp add: distinct_card distinct_enqueue)
  then show ?thesis by (simp add: set_enqueue length_remdups_card_conv)
qed

lemma chunks_single: "xs \<noteq> [] \<Longrightarrow> length xs \<le> n \<Longrightarrow> chunks n xs = [xs]"
  by (cases xs) auto

lemma map_of_key_map:
  "map_of (map (\<lambda>e. (k e, g e)) xs) i = map_option g (find (\<lambda>e. k e = i) xs)"
  by (induction xs) auto

lemma find_filter_implied:
  "(\<And>x. Q x \<Longrightarrow> P x) \<Longrightarrow> find Q (filter P xs) = find Q xs"
  by (induction xs) auto

text \<open>A batch of keys that are strings of object ids: one query, and for every key the
  employee stored under it.\<close>

lemma employeeLoader_batch_eq:
  assumes "\<forall>i \<in> set ids. ObjectId i = Inr i"
  shows "employeeLoader_batch st ids =
     ([FindEmployees ids],
      Inr (map (\<lambda>i. map_option (\<lambda>e. Employee.extend e \<lparr>id' = doc_id e\<rparr>)
                     (findById i (rev (employees st)))) ids))"
proof -
  let ?g = "\<lambda>e. Employee.extend e \<lparr>id' = doc_id e\<rparr>"
  let ?P = "\<lambda>e. doc_id e \<in> set ids"
  have "map_of (rev (map (\<lambda>e. (doc_id e, ?g e)) (filter ?P (employees st)))) i
      = map_option ?g (findById i (rev (employees st)))" if "i \<in> set ids" for i
  proof -
    have "rev (map (\<lambda>e. (doc_id e, ?g e)) (filter ?P (employees st)))
          = map (\<lambda>e. (doc_id e, ?g e)) (filter ?P (rev (employees st)))"
      by (simp add: rev_map rev_filter)
    moreover have "find (\<lambda>e. doc_id e = i) (filter ?P (rev (employees st)))
          = find (\<lambda>e. doc_id e = i) (rev (employees st))"
      using that by (intro find_filter_implied) simp
    ultimately show ?thesis
      by (simp only: map_of_key_map findById_def)
  qed
  then have "map (map_of (rev (map (\<lambda>e. (doc_id e, ?g e)) (filter ?P (employees st))))) ids
      = map (\<lambda>i. map_option ?g (findById i (rev (employees st)))) ids"
    by simp
  then show ?thesis
    by (simp add: employeeLoader_batch_def lean_id_def mapObjectId_canonical[OF assms])
qed

lemma loadMany_single_batch:
  assumes "ids \<noteq> []" and "length (remdups ids) \<le> maxBatchSize"
    and "batchFn (enqueue [] ids) = (qs, Inr (map h (enqueue [] ids)))"
  shows "loadMany batchFn ids = (map (\<lambda>i. Some (Inr (h i))) ids, qs)"
proof -
  let ?q = "enqueue [] ids"
  have ne: "?q \<noteq> []" using assms(1) set_enqueue[of "[]" ids] by (cases ids) auto
  have c: "chunks maxBatchSize ?q = [?q]"
    using ne assms(2) by (simp add: chunks_single length_enqueue)
  have d: "dispatchBatch batchFn ?q = zip ?q (map (\<lambda>i. Inr (h i)) ?q)"
    by (simp add: dispatchBatch_def assms(3) o_def)
  have "\<forall>i \<in> set ids. map_of (zip ?q (map (\<lambda>i. Inr (h i)) ?q)) i = Some (Inr (h i))"
    by (simp add: map_of_zip_map set_enqueue)
  then show ?thesis
    by (simp add: loadMany_def c d assms(3))
qed

lemma hexdigit_inj:
  assumes "a < 16" "b < 16" "hexdigit a = hexdigit b"
  shows "a = b"
proof -
  have "distinct ''0123456789abcdef''" by simp
  moreover have "a < length ''0123456789abcdef''" "b < length ''0123456789abcdef''"
    using assms by simp_all
  ultimately show ?thesis
    using assms(1,2,3) unfolding hexdigit_def
    by (metis mod_less nth_eq_iff_index_eq)
qed

lemma ex_key_inj:
  assumes "i < 256" "j < 256" "ex_key i = ex_key j"
  shows "i = j"
proof -
  from assms(3) have "hexdigit (i div 16) = hexdigit (j div 16)" "hexdigit i = hexdigit j"
    by (simp_all add: ex_key_def)
  moreover have "hexdigit i = hexdigit (i mod 16)" "hexdigit j = hexdigit (j mod 16)"
    by (simp_all add: hexdigit_def)
  ultimately have "i div 16 = j div 16" "i mod 16 = j mod 16"
    using assms(1,2) by (auto intro!: hexdigit_inj)
  then show ?thesis by (metis div_mult_mod_eq)
qed

lemma distinct_ex_keys: "n \<le> 256 \<Longrightarrow> distinct (map ex_key [0..<n])"
  by (auto simp: distinct_map inj_on_def intro: ex_key_inj)

lemma hexdigit_canonical: "is_hex (hexdigit d) \<and> to_lower (hexdigit d) = hexdigit d"
proof -
  have "list_all (\<lambda>c. is_hex c \<and> to_lower c = c) ''0123456789abcdef''" by code_simp
  moreover have "hexdigit d \<in> set ''0123456789abcdef''"
    unfolding hexdigit_def by (rule nth_mem) simp
  ultimately show ?thesis unfolding list_all_iff by blast
qed

lemma ObjectId_ex_key: "ObjectId (ex_key i) = Inr (ex_key i)"
proof -
  have "list_all (\<lambda>c. is_hex c \<and> to_lower c = c) ''b000000000000000000f00''" by code_simp
  then have "list_all (\<lambda>c. is_hex c \<and> to_lower c = c) (ex_key i)"
    using hexdigit_canonical by (simp add: ex_key_def)
  then have "list_all is_hex (ex_key i)" "toLowerCase (ex_key i) = ex_key i"
    unfolding toLowerCase_def list_all_iff by (simp_all add: map_idI)
  moreover have "length (ex_key i) = 24" by (simp add: ex_key_def)
  ultimately show ?thesis by (simp add: ObjectId_def)
qed

lemma chunks_two:
  assumes "n < length xs" "length xs \<le> 2 * n"
  shows "chunks n xs = [take n xs, drop n xs]"
proof -
  from assms obtain y ys where xs: "xs = y # ys" by (cases xs) auto
  have "0 < n" using assms by (cases n) auto
  have "chunks n (drop n xs) = [drop n xs]"
    using assms by (intro chunks_single) auto
  then show ?thesis using \<open>0 < n\<close> by (simp add: xs)
qed

lemma snd_loadMany:
  "snd (loadMany batchFn ks) =
     concat (map (\<lambda>batch. fst (batchFn batch)) (chunks maxBatchSize (enqueue [] ks)))"
  by (simp add: loadMany_def Let_def)

text \<open>
  Claim C5, as stated, fails. Loads of 101 distinct ids in one tick are split by
  \<^verbatim>\<open>maxBatchSize: 100\<close> into two batches, and the batch function sends one query for
  each. When one of the ids loaded in a tick is no object id, as \<^verbatim>\<open>12345\<close>, the batch
  function throws while it converts the keys: no query is sent and every load of the
  batch fails, those of the stored employees included. And the id of the first employee
  written with upper-case digits converts to the object id of that employee, whom the
  query finds, but the load is answered with \<^verbatim>\<open>null\<close>: the \<^verbatim>\<open>Map\<close> holds the employee
  under the lower-case string.
\<close>

theorem employeeLoader_two_queries:
  "distinct (map ex_key [0..<101])
   \<and> length (map ex_key [0..<101]) = 101
   \<and> snd (loadMany (employeeLoader_batch ex_staff) (map ex_key [0..<101]))
       = [FindEmployees (map ex_key [0..<100]), FindEmployees [ex_key 100]]
   \<and> loadMany (employeeLoader_batch ex_store)
        [''64b000000000000000000e01'', ''12345'', ''64b000000000000000000e02'']
     = ([Some (Inl (BSONError ''Argument passed in must be a string of 12 bytes or a string of 24 hex characters or an integer'')),
         Some (Inl (BSONError ''Argument passed in must be a string of 12 bytes or a string of 24 hex characters or an integer'')),
         Some (Inl (BSONError ''Argument passed in must be a string of 12 bytes or a string of 24 hex characters or an integer''))],
        [])
   \<and> findById ''64b000000000000000000e01'' (employees ex_store)
     = Some (ex_employee ''64b000000000000000000e01'' ''Bob Ray'' 1)
   \<and> loadMany (employeeLoader_batch ex_store) [''64B000000000000000000E01'']
     = ([Some (Inr None)], [FindEmployees [''64b000000000000000000e01'']])"
proof -
  have d: "distinct (map ex_key [0..<101])" by (rule distinct_ex_keys) simp
  have q: "fst (employeeLoader_batch ex_staff (map ex_key ns)) = [FindEmployees (map ex_key ns)]"
    for ns
    by (subst employeeLoader_batch_eq) (simp_all add: ObjectId_ex_key)
  have "chunks maxBatchSize (map ex_key [0..<101])
        = [take 100 (map ex_key [0..<101]), drop 100 (map ex_key [0..<101])]"
    unfolding maxBatchSize_def by (rule chunks_two) simp_all
  also have "\<dots> = [map ex_key [0..<100], map ex_key [100..<101]]"
    by (simp add: take_map drop_map)
  finally have "snd (loadMany (employeeLoader_batch ex_staff) (map ex_key [0..<101]))
        = [FindEmployees (map ex_key [0..<100]), FindEmployees (map ex_key [100..<101])]"
    by (simp only: snd_loadMany enqueue_distinct[OF d] set_simps Int_empty_right
        list.map concat.simps append_Nil2 q append.simps)
  moreover have "loadMany (employeeLoader_batch ex_store)
        [''64b000000000000000000e01'', ''12345'', ''64b000000000000000000e02'']
     = ([Some (Inl (BSONError ''Argument passed in must be a string of 12 bytes or a string of 24 hex characters or an integer'')),
         Some (Inl (BSONError ''Argument passed in must be a string of 12 bytes or a string of 24 hex characters or an integer'')),
         Some (Inl (BSONError ''Argument passed in must be a string of 12 bytes or a string of 24 hex characters or an integer''))],
        [])"
    by (simp add: loadMany_def maxBatchSize_def dispatchBatch_def employeeLoader_batch_def ex_ids)
  moreover have "findById ''64b000000000000000000e01'' (employees ex_store)
     = Some (ex_employee ''64b000000000000000000e01'' ''Bob Ray'' 1)"
    by (simp add: findById_def ex_store_def ex_employee_def)
  moreover have "loadMany (employeeLoader_batch ex_store) [''64B000000000000000000E01'']
     = ([Some (Inr None)], [FindEmployees [''64b000000000000000000e01'']])"
    by (simp add: loadMany_def maxBatchSize_def dispatchBatch_def employeeLoader_batch_def ex_ids
        lean_id_def ex_store_def ex_employee_def)
  ultimately show ?thesis using d by simp
qed

text \<open>
  Claim C5, amended. For loads issued in one tick on a fresh loader, with at least one and
  at most 100 distinct ids, each the string of an object id (24 lower-case hexadecimal
  digits), the loader sends exactly one query to the store, over the distinct ids, and
  answers every load in request order: the stored employee of the id (with its \<^verbatim>\<open>id\<close>
  field set), or \<^verbatim>\<open>null\<close> for an id without employee; no load fails. The stored
  employee of an id is the one the \<^verbatim>\<open>Map\<close> keeps: under the primary key the only one,
  in general the last one in the collection. The witness is the example
  \<open>[A, B, A, C]\<close> of the specification.
\<close>

theorem employeeLoader_single_query:
  assumes "ids \<noteq> []" and "length (remdups ids) \<le> maxBatchSize"
    and "\<forall>i \<in> set ids. ObjectId i = Inr i"
  shows "(\<exists>keys. snd (loadMany (employeeLoader_batch st) ids) = [FindEmployees keys]
                 \<and> distinct keys \<and> set keys = set ids)
       \<and> fst (loadMany (employeeLoader_batch st) ids)
           = map (\<lambda>i. Some (Inr (map_option (\<lambda>e. Employee.extend e \<lparr>id' = doc_id e\<rparr>)
                                    (findById i (rev (employees st)))))) ids"
proof -
  have "\<forall>i \<in> set (enqueue [] ids). ObjectId i = Inr i"
    using assms(3) by (simp add: set_enqueue)
  then have "employeeLoader_batch st (enqueue [] ids) =
     ([FindEmployees (enqueue [] ids)],
      Inr (map (\<lambda>i. map_option (\<lambda>e. Employee.extend e \<lparr>id' = doc_id e\<rparr>)
                     (findById i (rev (employees st)))) (enqueue [] ids)))"
    by (rule employeeLoader_batch_eq)
  from loadMany_single_batch
         [where ids = ids and batchFn = "employeeLoader_batch st" and
                h = "\<lambda>i. map_option (\<lambda>e. Employee.extend e \<lparr>id' = doc_id e\<rparr>)
                         (findById i (rev (employees st)))",
          OF assms(1,2) this]
  show ?thesis
    by (simp add: distinct_enqueue set_enqueue)
qed

theorem employeeLoader_single_query_witness:
  "[''64b000000000000000000e01'', ''64b000000000000000000e09'', ''64b000000000000000000e01'',
    ''64b000000000000000000e02''] \<noteq> ([] :: string list)
   \<and> length (remdups [''64b000000000000000000e01'', ''64b000000000000000000e09'',
                      ''64b000000000000000000e01'', ''64b000000000000000000e02'']) \<le> maxBatchSize
   \<and> list_all (\<lambda>i. ObjectId i = Inr i)
        [''64b000000000000000000e01'', ''64b000000000000000000e09'',
         ''64b000000000000000000e01'', ''64b000000000000000000e02'']
   \<and> loadMany (employeeLoader_batch ex_store)
        [''64b000000000000000000e01'', ''64b000000000000000000e09'', ''64b000000000000000000e01'',
         ''64b000000000000000000e02'']
     = ([Some (Inr (Some (Employee.extend (ex_employee ''64b000000000000000000e01'' ''Bob Ray'' 1)
                            \<lparr>id' = ''64b000000000000000000e01''\<rparr>))),
         Some (Inr None),
         Some (Inr (Some (Employee.extend (ex_employee ''64b000000000000000000e01'' ''Bob Ray'' 1)
                            \<lparr>id' = ''64b000000000000000000e01''\<rparr>))),
         Some (Inr (Some (Employee.extend (ex_employee ''64b000000000000000000e02'' ''Ann Lee'' 2)
                            \<lparr>id' = ''64b000000000000000000e02''\<rparr>)))],
        [FindEmployees [''64b000000000000000000e01'', ''64b000000000000000000e09'',
                        ''64b000000000000000000e02'']])"
  using employeeLoader_single_query
          [of "[''64b000000000000000000e01'', ''64b000000000000000000e09'',
                ''64b000000000000000000e01'', ''64b000000000000000000e02'']" ex_store]
  by (simp add: maxBatchSize_def loadMany_def dispatchBatch_def employeeLoader_batch_def
      lean_id_def ex_store_def ex_employee_def ex_ids)

end
